theory Spec2Isabelle
  imports Complex_Main
begin

section \<open>JavaScript numbers\<close>

text \<open>
  The program computes on JavaScript numbers (IEEE doubles).  The model keeps the three
  non-finite values of a double apart from the finite ones: \<open>NaN\<close>, \<open>PInf\<close>
  (\<open>Infinity\<close>) and \<open>NInf\<close> (\<open>-Infinity\<close>).  A finite double is idealised as
  the real number it stands for: rounding error, overflow of finite results and the sign
  of zero are not represented, so a quotient by zero takes its sign from the numerator.
  The one computation in which a rounding decides whether a square root is taken of a
  negative number, the quotient \<open>headT\<close> of the simple profile, is rounded as doubles
  round it (see \<open>fl\<close> below).
\<close>

datatype jsnum = Num real | PInf | NInf | NaN

fun js_neg :: "jsnum \<Rightarrow> jsnum" where
  "js_neg (Num a) = Num (- a)"
| "js_neg PInf = NInf"
| "js_neg NInf = PInf"
| "js_neg NaN = NaN"

fun js_add :: "jsnum \<Rightarrow> jsnum \<Rightarrow> jsnum" where
  "js_add (Num a) (Num b) = Num (a + b)"
| "js_add NaN _ = NaN"
| "js_add _ NaN = NaN"
| "js_add PInf NInf = NaN"
| "js_add NInf PInf = NaN"
| "js_add PInf _ = PInf"
| "js_add _ PInf = PInf"
| "js_add NInf _ = NInf"
| "js_add _ NInf = NInf"

definition js_sub :: "jsnum \<Rightarrow> jsnum \<Rightarrow> jsnum" where
  "js_sub x y = js_add x (js_neg y)"

fun js_mul :: "jsnum \<Rightarrow> jsnum \<Rightarrow> jsnum" where
  "js_mul (Num a) (Num b) = Num (a * b)"
| "js_mul NaN _ = NaN"
| "js_mul _ NaN = NaN"
| "js_mul (Num a) PInf = (if a = 0 then NaN else if 0 < a then PInf else NInf)"
| "js_mul (Num a) NInf = (if a = 0 then NaN else if 0 < a then NInf else PInf)"
| "js_mul PInf (Num b) = (if b = 0 then NaN else if 0 < b then PInf else NInf)"
| "js_mul NInf (Num b) = (if b = 0 then NaN else if 0 < b then NInf else PInf)"
| "js_mul PInf PInf = PInf"
| "js_mul NInf NInf = PInf"
| "js_mul PInf NInf = NInf"
| "js_mul NInf PInf = NInf"

fun js_div :: "jsnum \<Rightarrow> jsnum \<Rightarrow> jsnum" where
  "js_div (Num a) (Num b) =
     (if b = 0 then (if a = 0 then NaN else if 0 < a then PInf else NInf)
      else Num (a / b))"
| "js_div NaN _ = NaN"
| "js_div _ NaN = NaN"
| "js_div (Num a) PInf = Num 0"
| "js_div (Num a) NInf = Num 0"
| "js_div PInf (Num b) = (if 0 \<le> b then PInf else NInf)"
| "js_div NInf (Num b) = (if 0 \<le> b then NInf else PInf)"
| "js_div PInf PInf = NaN"
| "js_div PInf NInf = NaN"
| "js_div NInf PInf = NaN"
| "js_div NInf NInf = NaN"

text \<open>The comparison operators: every comparison with \<open>NaN\<close> is false.\<close>

fun js_lt :: "jsnum \<Rightarrow> jsnum \<Rightarrow> bool" where
  "js_lt (Num a) (Num b) = (a < b)"
| "js_lt NaN _ = False"
| "js_lt _ NaN = False"
| "js_lt PInf _ = False"
| "js_lt _ PInf = True"
| "js_lt _ NInf = False"
| "js_lt NInf _ = True"

fun js_le :: "jsnum \<Rightarrow> jsnum \<Rightarrow> bool" where
  "js_le (Num a) (Num b) = (a \<le> b)"
| "js_le NaN _ = False"
| "js_le _ NaN = False"
| "js_le _ PInf = True"
| "js_le NInf _ = True"
| "js_le PInf _ = False"
| "js_le _ NInf = False"

definition js_gt :: "jsnum \<Rightarrow> jsnum \<Rightarrow> bool" where
  "js_gt x y = js_lt y x"

definition js_ge :: "jsnum \<Rightarrow> jsnum \<Rightarrow> bool" where
  "js_ge x y = js_le y x"

fun isNaN :: "jsnum \<Rightarrow> bool" where
  "isNaN NaN = True"
| "isNaN _ = False"

fun isFinite :: "jsnum \<Rightarrow> bool" where
  "isFinite (Num a) = True"
| "isFinite _ = False"

subsection \<open>The functions of \<open>Math\<close> and \<open>Number\<close> that the program calls\<close>

definition Math_PI :: jsnum where
  "Math_PI = Num pi"

text \<open>\<open>Math.pow(x, n)\<close> for the natural exponents the program uses.\<close>

fun Math_pow :: "jsnum \<Rightarrow> nat \<Rightarrow> jsnum" where
  "Math_pow x 0 = Num 1"
| "Math_pow (Num a) n = Num (a ^ n)"
| "Math_pow PInf n = PInf"
| "Math_pow NInf n = (if even n then PInf else NInf)"
| "Math_pow NaN n = NaN"

fun Math_sqrt :: "jsnum \<Rightarrow> jsnum" where
  "Math_sqrt (Num a) = (if a < 0 then NaN else Num (sqrt a))"
| "Math_sqrt PInf = PInf"
| "Math_sqrt NInf = NaN"
| "Math_sqrt NaN = NaN"

text \<open>\<open>Math.round\<close> rounds to the nearest integer, a tie towards \<open>+Infinity\<close>.\<close>

fun Math_round :: "jsnum \<Rightarrow> jsnum" where
  "Math_round (Num a) = Num (of_int \<lfloor>a + 1 / 2\<rfloor>)"
| "Math_round x = x"

fun Math_max :: "jsnum \<Rightarrow> jsnum \<Rightarrow> jsnum" where
  "Math_max (Num a) (Num b) = Num (max a b)"
| "Math_max NaN _ = NaN"
| "Math_max _ NaN = NaN"
| "Math_max PInf _ = PInf"
| "Math_max _ PInf = PInf"
| "Math_max NInf y = y"
| "Math_max x NInf = x"

text \<open>
  \<open>Number(x.toFixed(d))\<close>: the decimal with \<open>d\<close> fraction digits nearest to \<open>x\<close>,
  a tie away from zero (the sign is split off first); from \<open>10^21\<close> on, and on a
  non-finite value, \<open>toFixed\<close> prints the number itself.
\<close>

definition toFixed_real :: "nat \<Rightarrow> real \<Rightarrow> real" where
  "toFixed_real d a =
     (if 10 ^ 21 \<le> \<bar>a\<bar> then a
      else sgn a * of_int \<lfloor>\<bar>a\<bar> * 10 ^ d + 1 / 2\<rfloor> / 10 ^ d)"

fun Number_toFixed :: "nat \<Rightarrow> jsnum \<Rightarrow> jsnum" where
  "Number_toFixed d (Num a) = Num (toFixed_real d a)"
| "Number_toFixed d x = x"

subsection \<open>Rounding to a double\<close>

text \<open>
  IEEE 754 binary64 rounding of a real number, to the nearest double with ties to the
  even significand: \<open>rne\<close> rounds to the nearest integer, ties to even, and \<open>fl\<close>
  rounds the significand to 53 bits at the exponent of its argument.  Subnormal numbers
  and overflow are not represented.  \<open>dbl\<close> lifts \<open>fl\<close> to JavaScript numbers.
\<close>

definition rne :: "real \<Rightarrow> int" where
  "rne y = (let f = \<lfloor>y\<rfloor>; r = y - of_int f
            in if r < 1 / 2 then f else if 1 / 2 < r then f + 1
               else if even f then f else f + 1)"

definition fl :: "real \<Rightarrow> real" where
  "fl x = (if x = 0 then 0
           else (let e = \<lfloor>log 2 \<bar>x\<bar>\<rfloor>; u = 2 powr (of_int e - 52)
                 in of_int (rne (x / u)) * u))"

fun dbl :: "jsnum \<Rightarrow> jsnum" where
  "dbl (Num a) = Num (fl a)"
| "dbl x = x"

section \<open>Measurement engine: \<open>processImage\<close>\<close>

subsection \<open>Circumference of an elliptical cross-section\<close>

text \<open>
  \<open>calcCircumference\<close> is a closure over \<open>depthFactor\<close>; the model takes it as the
  first argument.  The local constants \<open>a\<close>, \<open>b\<close> and \<open>h_approx\<close> and the
  argument of \<open>Math.round\<close> are definitions of their own, in the order and with the
  bracketing of the source.
\<close>

definition ellipse_a :: "jsnum \<Rightarrow> jsnum" where
  "ellipse_a width = js_div width (Num 2)"

definition ellipse_b :: "jsnum \<Rightarrow> jsnum \<Rightarrow> jsnum" where
  "ellipse_b depthFactor width = js_div (js_mul width depthFactor) (Num 2)"

definition h_approx :: "jsnum \<Rightarrow> jsnum \<Rightarrow> jsnum" where
  "h_approx depthFactor width =
     (let a = ellipse_a width; b = ellipse_b depthFactor width
      in js_div (Math_pow (js_sub a b) 2) (Math_pow (js_add a b) 2))"

definition perimeter :: "jsnum \<Rightarrow> jsnum \<Rightarrow> jsnum" where
  "perimeter depthFactor width =
     (let a = ellipse_a width; b = ellipse_b depthFactor width;
          h = h_approx depthFactor width
      in js_mul (js_mul Math_PI (js_add a b))
           (js_add (Num 1)
              (js_div (js_mul (Num 3) h)
                 (js_add (Num 10) (Math_sqrt (js_sub (Num 4) (js_mul (Num 3) h)))))))"

definition calcCircumference :: "jsnum \<Rightarrow> jsnum \<Rightarrow> jsnum" where
  "calcCircumference depthFactor width = Math_round (perimeter depthFactor width)"

subsection \<open>The oracle's response\<close>

text \<open>
  \<open>AnalysisResponse\<close> (types.ts) is what \<open>JSON.parse\<close> returns, cast without any
  check.  A property that the parsed object lacks reads as \<open>undefined\<close>, here
  \<open>None\<close>; a property that is present is taken to hold a number, as the response
  schema asks.
\<close>

record Ratios =
  waistRatio :: "jsnum option"
  hipRatio :: "jsnum option"
  shoulderRatio :: "jsnum option"
  chestRatio :: "jsnum option"
  torsoHeightRatio :: "jsnum option"

record AnalysisResponse =
  measurements :: "Ratios option"
  confidence :: "jsnum option"

text \<open>
  What a \<open>throw\<close> carries: an \<open>Error\<close> with its message, a \<open>TypeError\<close> (raised by
  the language on a property read of \<open>undefined\<close>), or any other thrown value.
\<close>

datatype error = Error string | TypeError string | Thrown

text \<open>\<open>ToNumber\<close> on a property read: \<open>undefined\<close> becomes \<open>NaN\<close>.\<close>

fun toNumber :: "jsnum option \<Rightarrow> jsnum" where
  "toNumber None = NaN"
| "toNumber (Some x) = x"


subsection \<open>The measurement record\<close>

text \<open>
  \<open>BodyMeasurements\<close> (types.ts).  The extended \<open>processImage\<close> also stores \<open>age\<close>
  in the object it builds; the simple one does not, which is \<open>None\<close> here.
\<close>

record BodyMeasurements =
  height :: jsnum
  weight :: jsnum
  age :: "jsnum option"
  waistWidth :: jsnum
  hipWidth :: jsnum
  shoulderWidth :: jsnum
  chestWidth :: jsnum
  waistCircumference :: jsnum
  hipCircumference :: jsnum
  bmi :: jsnum
  whr :: jsnum
  whtr :: jsnum

text \<open>The three index expressions of \<open>processImage\<close>, named after the constants they initialise.\<close>

definition bmi_of :: "jsnum \<Rightarrow> jsnum \<Rightarrow> jsnum" where
  "bmi_of userWeight userHeight =
     Number_toFixed 1 (js_div userWeight (Math_pow (js_div userHeight (Num 100)) 2))"

definition whr_of :: "jsnum \<Rightarrow> jsnum \<Rightarrow> jsnum" where
  "whr_of waistCircum hipCircum = Number_toFixed 2 (js_div waistCircum hipCircum)"

definition whtr_of :: "jsnum \<Rightarrow> jsnum \<Rightarrow> jsnum" where
  "whtr_of waistCircum userHeight = Number_toFixed 2 (js_div waistCircum userHeight)"

definition depthFactor_of :: "jsnum \<Rightarrow> jsnum" where
  "depthFactor_of userAge = (if js_gt userAge (Num 50) then Num (78 / 100) else Num (75 / 100))"

text \<open>
  The body of the \<open>try\<close> block of \<open>processImage\<close> (App.tsx) after the \<open>await\<close>, on
  the state variables \<open>height\<close>, \<open>weight\<close>, \<open>age\<close> and the awaited \<open>analysis\<close>.
  Reading a property of \<open>ratios\<close> when \<open>analysis.measurements\<close> is undefined is the
  only throw.
\<close>

definition computeMeasurements ::
    "jsnum \<Rightarrow> jsnum \<Rightarrow> jsnum \<Rightarrow> AnalysisResponse \<Rightarrow> error + BodyMeasurements" where
  "computeMeasurements userHeight userWeight userAge analysis =
     (case measurements analysis of
        None \<Rightarrow> Inl (TypeError ''Cannot read properties of undefined (reading 'waistRatio')'')
      | Some ratios \<Rightarrow>
          (let scale = userHeight;
               wWidth = js_mul (toNumber (waistRatio ratios)) scale;
               hWidth = js_mul (toNumber (hipRatio ratios)) scale;
               depthFactor = depthFactor_of userAge;
               waistCircum = calcCircumference depthFactor wWidth;
               hipCircum = calcCircumference depthFactor hWidth
           in Inr \<lparr> height = userHeight,
                    weight = userWeight,
                    age = Some userAge,
                    waistWidth = js_div (js_mul (toNumber (waistRatio ratios)) scale) (Num 100),
                    hipWidth = js_div (js_mul (toNumber (hipRatio ratios)) scale) (Num 100),
                    shoulderWidth = js_div (js_mul (toNumber (shoulderRatio ratios)) scale) (Num 100),
                    chestWidth = js_div (js_mul (toNumber (chestRatio ratios)) scale) (Num 100),
                    waistCircumference = waistCircum,
                    hipCircumference = hipCircum,
                    bmi = bmi_of userWeight userHeight,
                    whr = whr_of waistCircum hipCircum,
                    whtr = whtr_of waistCircum userHeight \<rparr>))"

text \<open>
  The same block in the simple variant: no age, and \<open>calcCircumference\<close> with the
  constant \<open>0.7\<close> where the extended one has \<open>depthFactor\<close>.
\<close>

definition calcCircumference_simple :: "jsnum \<Rightarrow> jsnum" where
  "calcCircumference_simple width = calcCircumference (Num (7 / 10)) width"

definition computeMeasurements_simple ::
    "jsnum \<Rightarrow> jsnum \<Rightarrow> AnalysisResponse \<Rightarrow> error + BodyMeasurements" where
  "computeMeasurements_simple userHeight userWeight analysis =
     (case measurements analysis of
        None \<Rightarrow> Inl (TypeError ''Cannot read properties of undefined (reading 'waistRatio')'')
      | Some ratios \<Rightarrow>
          (let scale = userHeight;
               wWidth = js_mul (toNumber (waistRatio ratios)) scale;
               hWidth = js_mul (toNumber (hipRatio ratios)) scale;
               sWidth = js_mul (toNumber (shoulderRatio ratios)) scale;
               cWidth = js_mul (toNumber (chestRatio ratios)) scale;
               waistCircum = calcCircumference_simple wWidth;
               hipCircum = calcCircumference_simple hWidth
           in Inr \<lparr> height = userHeight,
                    weight = userWeight,
                    age = None,
                    waistWidth = js_div (js_mul (toNumber (waistRatio ratios)) scale) (Num 100),
                    hipWidth = js_div (js_mul (toNumber (hipRatio ratios)) scale) (Num 100),
                    shoulderWidth = js_div (js_mul (toNumber (shoulderRatio ratios)) scale) (Num 100),
                    chestWidth = js_div (js_mul (toNumber (chestRatio ratios)) scale) (Num 100),
                    waistCircumference = waistCircum,
                    hipCircumference = hipCircum,
                    bmi = bmi_of userWeight userHeight,
                    whr = whr_of waistCircum hipCircum,
                    whtr = whtr_of waistCircum userHeight \<rparr>))"

subsection \<open>The view state that \<open>processImage\<close> updates\<close>

text \<open>The steps \<open>'welcome'\<close>, \<open>'input'\<close>, \<open>'camera'\<close>, \<open>'processing'\<close>, \<open>'result'\<close>.\<close>

datatype step = Welcome | Input | Camera | Processing | Result

record AppState =
  st_step :: step
  st_height :: jsnum
  st_weight :: jsnum
  st_age :: jsnum
  st_measurements :: "BodyMeasurements option"
  st_error :: "string option"
  st_isProcessing :: bool

text \<open>The \<open>catch\<close> clause shows the message of an \<open>Error\<close>, a fixed text otherwise.\<close>

fun error_message :: "error \<Rightarrow> string" where
  "error_message (Error msg) = msg"
| "error_message (TypeError msg) = msg"
| "error_message Thrown = ''Error desconocido al procesar la imagen.''"

definition processImage :: "AppState \<Rightarrow> error + AnalysisResponse \<Rightarrow> AppState" where
  "processImage s awaited =
     (let s1 = s\<lparr> st_step := Processing, st_isProcessing := True, st_error := None \<rparr>;
          outcome = (case awaited of
                       Inl e \<Rightarrow> Inl e
                     | Inr analysis \<Rightarrow>
                         computeMeasurements (st_height s) (st_weight s) (st_age s) analysis)
      in case outcome of
           Inr finalMeasurements \<Rightarrow>
             s1\<lparr> st_measurements := Some finalMeasurements, st_step := Result,
                 st_isProcessing := False \<rparr>
         | Inl err \<Rightarrow>
             s1\<lparr> st_error := Some (error_message err), st_step := Camera,
                 st_isProcessing := False \<rparr>)"

text \<open>
  \<open>processImage\<close> of the simple variant, which has no \<open>age\<close> state: \<open>st_age\<close> is
  not read.
\<close>

definition processImage_simple :: "AppState \<Rightarrow> error + AnalysisResponse \<Rightarrow> AppState" where
  "processImage_simple s awaited =
     (let s1 = s\<lparr> st_step := Processing, st_isProcessing := True, st_error := None \<rparr>;
          outcome = (case awaited of
                       Inl e \<Rightarrow> Inl e
                     | Inr analysis \<Rightarrow>
                         computeMeasurements_simple (st_height s) (st_weight s) analysis)
      in case outcome of
           Inr finalMeasurements \<Rightarrow>
             s1\<lparr> st_measurements := Some finalMeasurements, st_step := Result,
                 st_isProcessing := False \<rparr>
         | Inl err \<Rightarrow>
             s1\<lparr> st_error := Some (error_message err), st_step := Camera,
                 st_isProcessing := False \<rparr>)"

subsection \<open>Classification\<close>

record Status =
  label :: string
  color :: string
  bg :: "string option"
  border :: "string option"

definition getBMIStatus :: "jsnum \<Rightarrow> Status" where
  "getBMIStatus val =
     (if js_lt val (Num (185 / 10)) then
        \<lparr> label = ''BAJO PESO'', color = ''text-blue-400'',
          bg = Some ''bg-blue-500/20'', border = Some ''border-blue-500/30'' \<rparr>
      else if js_lt val (Num 25) then
        \<lparr> label = ''NORMAL'', color = ''text-green-400'',
          bg = Some ''bg-green-500/20'', border = Some ''border-green-500/30'' \<rparr>
      else if js_lt val (Num 30) then
        \<lparr> label = ''SOBREPESO'', color = ''text-yellow-400'',
          bg = Some ''bg-yellow-500/20'', border = Some ''border-yellow-500/30'' \<rparr>
      else
        \<lparr> label = ''OBESIDAD'', color = ''text-red-400'',
          bg = Some ''bg-red-500/20'', border = Some ''border-red-500/30'' \<rparr>)"


section \<open>The documented perimeter formula\<close>

text \<open>
  Ramanujan's second approximation as the specification words it, on real numbers:
  \<open>h = (a - b)\<^sup>2 / (a + b)\<^sup>2\<close>, \<open>P = \<pi>(a + b)(1 + 3h / (10 + \<surd>(4 - 3h)))\<close> with
  \<open>a = width / 2\<close> and \<open>b = width \<cdot> depthFactor / 2\<close>, rounded to the nearest integer.
\<close>

definition spec_perimeter :: "real \<Rightarrow> real \<Rightarrow> real" where
  "spec_perimeter depthFactor width =
     (let a = width / 2; b = width * depthFactor / 2; h = (a - b)\<^sup>2 / (a + b)\<^sup>2
      in pi * (a + b) * (1 + 3 * h / (10 + sqrt (4 - 3 * h))))"

definition spec_circumference :: "real \<Rightarrow> real \<Rightarrow> int" where
  "spec_circumference depthFactor width = round (spec_perimeter depthFactor width)"

text \<open>
  The perimeter of an ellipse of width \<open>1\<close>, without the factor \<open>\<pi>\<close>: the formula is
  linear in the width, and \<open>h\<close> depends on the depth factor alone.
\<close>

definition shape :: "real \<Rightarrow> real" where
  "shape d = (let k = ((1 - d) / (1 + d))\<^sup>2
              in (1 + d) / 2 * (1 + 3 * k / (10 + sqrt (4 - 3 * k))))"

section \<open>Silhouette mesh generator: \<open>ModelViewer\<close>\<close>

text \<open>
  \<open>THREE.Vector2\<close> and \<open>THREE.MathUtils.lerp\<close> belong to the three.js library;
  \<open>lerp(x, y, t)\<close> is \<open>(1 - t) * x + t * y\<close>.
\<close>

datatype Vector2 = Vector2 (vx: jsnum) (vy: jsnum)

definition MathUtils_lerp :: "jsnum \<Rightarrow> jsnum \<Rightarrow> jsnum \<Rightarrow> jsnum" where
  "MathUtils_lerp x y t = js_add (js_mul (js_sub (Num 1) t) x) (js_mul t y)"

subsection \<open>The simple variant: a chain of height bands, 20 segments\<close>

text \<open>The head branch, as a function of \<open>headT\<close> and \<open>scaleFactor\<close>.\<close>

definition head_x_simple :: "jsnum \<Rightarrow> jsnum \<Rightarrow> jsnum" where
  "head_x_simple headT scaleFactor =
     js_mul (js_mul (Math_sqrt (js_sub (Num 1)
                (Math_pow (js_mul (js_sub headT (Num (5 / 10))) (Num 2)) 2)))
              (Num (1 / 10)))
       scaleFactor"

text \<open>
  \<open>headT = (t - 0.9) / 0.1\<close> as the doubles compute it: \<open>t\<close> and the two literals
  are doubles, and the difference and the quotient are each rounded.  At \<open>t = 1\<close> the
  result is the double below \<open>1\<close>, not \<open>1\<close>.
\<close>

definition headT_simple :: "jsnum \<Rightarrow> jsnum" where
  "headT_simple t =
     dbl (js_div (dbl (js_sub (dbl t) (dbl (Num (9 / 10))))) (dbl (Num (1 / 10))))"

text \<open>The body of the \<open>for\<close> loop: the point pushed for the index \<open>i\<close>.\<close>

definition profile_point_simple :: "BodyMeasurements \<Rightarrow> nat \<Rightarrow> Vector2" where
  "profile_point_simple m i =
     (let scaleFactor = js_div (height m) (Num 100);
          t = js_div (Num (real i)) (Num 20);
          y = js_mul t scaleFactor;
          x = (if js_lt t (Num (1 / 10)) then js_mul (Num (8 / 100)) scaleFactor
               else if js_lt t (Num (45 / 100)) then
                 (let legT = js_div (js_sub t (Num (1 / 10))) (Num (35 / 100))
                  in MathUtils_lerp (Num (8 / 100)) (js_div (hipWidth m) (Num 2)) legT)
               else if js_lt t (Num (55 / 100)) then
                 (let waistT = js_div (js_sub t (Num (45 / 100))) (Num (1 / 10))
                  in MathUtils_lerp (js_div (hipWidth m) (Num 2)) (js_div (waistWidth m) (Num 2)) waistT)
               else if js_lt t (Num (75 / 100)) then
                 (let chestT = js_div (js_sub t (Num (55 / 100))) (Num (2 / 10))
                  in MathUtils_lerp (js_div (waistWidth m) (Num 2)) (js_div (chestWidth m) (Num 2)) chestT)
               else if js_lt t (Num (9 / 10)) then
                 (let shoulderT = js_div (js_sub t (Num (75 / 100))) (Num (15 / 100))
                  in MathUtils_lerp (js_div (shoulderWidth m) (Num 2))
                       (js_mul (Num (6 / 100)) scaleFactor) shoulderT)
               else
                 (let headT = headT_simple t
                  in head_x_simple headT scaleFactor))
      in Vector2 x y)"

text \<open>The loop \<open>for (let i = 0; i <= segments; i++)\<close> with \<open>segments = 20\<close>.\<close>

function profile_loop_simple :: "BodyMeasurements \<Rightarrow> nat \<Rightarrow> Vector2 list \<Rightarrow> Vector2 list" where
  "profile_loop_simple m i points =
     (if i \<le> 20 then profile_loop_simple m (Suc i) (points @ [profile_point_simple m i])
      else points)"
  by pat_completeness auto
termination
  by (relation "measure (\<lambda>(m, i, points). 21 - i)") auto

definition profile_simple :: "BodyMeasurements \<Rightarrow> Vector2 list" where
  "profile_simple m = profile_loop_simple m 0 []"

subsection \<open>The extended variant: landmarks, 40 samples\<close>

datatype landmark = Landmark (lm_t: jsnum) (lm_r: jsnum)

definition landmarks :: "BodyMeasurements \<Rightarrow> landmark list" where
  "landmarks m =
     (let scaleFactor = js_div (height m) (Num 100)
      in [Landmark (Num 0) (Num 0),
          Landmark (Num (10 / 100)) (js_mul (hipWidth m) (Num (4 / 10))),
          Landmark (Num (35 / 100)) (js_mul (hipWidth m) (Num (45 / 100))),
          Landmark (Num (45 / 100)) (js_mul (hipWidth m) (Num (5 / 10))),
          Landmark (Num (58 / 100)) (js_mul (waistWidth m) (Num (5 / 10))),
          Landmark (Num (72 / 100)) (js_mul (chestWidth m) (Num (5 / 10))),
          Landmark (Num (80 / 100)) (js_mul (shoulderWidth m) (Num (5 / 10))),
          Landmark (Num (83 / 100)) (js_mul (Num (45 / 1000)) scaleFactor),
          Landmark (Num (86 / 100)) (js_mul (Num (40 / 1000)) scaleFactor)])"

text \<open>
  The inner loop over \<open>j\<close>: the first pair of consecutive landmarks that brackets
  \<open>currentT\<close> gives the radius and ends the loop; \<open>r\<close> stays \<open>0\<close> when none does.
\<close>

fun find_segment :: "landmark list \<Rightarrow> jsnum \<Rightarrow> jsnum" where
  "find_segment (l0 # l1 # rest) currentT =
     (if js_ge currentT (lm_t l0) \<and> js_le currentT (lm_t l1) then
        (let localT = js_div (js_sub currentT (lm_t l0)) (js_sub (lm_t l1) (lm_t l0))
         in MathUtils_lerp (lm_r l0) (lm_r l1) localT)
      else find_segment (l1 # rest) currentT)"
| "find_segment ls currentT = Num 0"

text \<open>The head override, as a function of \<open>headT\<close> and \<open>scaleFactor\<close>.\<close>

definition head_r :: "jsnum \<Rightarrow> jsnum \<Rightarrow> jsnum" where
  "head_r headT scaleFactor =
     (let headRadius = js_mul (Num (8 / 100)) scaleFactor;
          r = js_mul (Math_sqrt (Math_max (Num 0)
                 (js_sub (Num 1) (Math_pow (js_sub (js_mul headT (Num 2)) (Num 1)) 2))))
                headRadius
      in if isNaN r then Num (5 / 1000) else r)"

definition profile_point :: "BodyMeasurements \<Rightarrow> nat \<Rightarrow> Vector2" where
  "profile_point m i =
     (let scaleFactor = js_div (height m) (Num 100);
          currentT = js_div (Num (real i)) (Num 40);
          r0 = find_segment (landmarks m) currentT;
          r = (if js_gt currentT (Num (86 / 100)) then
                 (let headT = js_div (js_sub currentT (Num (86 / 100)))
                                (js_sub (Num 1) (Num (86 / 100)))
                  in head_r headT scaleFactor)
               else r0)
      in Vector2 r (js_mul currentT scaleFactor))"

text \<open>The loop \<open>for (let i = 0; i <= density; i++)\<close> with \<open>density = 40\<close>.\<close>

function profile_loop :: "BodyMeasurements \<Rightarrow> nat \<Rightarrow> Vector2 list \<Rightarrow> Vector2 list" where
  "profile_loop m i points =
     (if i \<le> 40 then profile_loop m (Suc i) (points @ [profile_point m i])
      else points)"
  by pat_completeness auto
termination
  by (relation "measure (\<lambda>(m, i, points). 41 - i)") auto

definition profile :: "BodyMeasurements \<Rightarrow> Vector2 list" where
  "profile m = profile_loop m 0 []"

subsection \<open>The model group and its export (extended variant)\<close>

text \<open>
  The objects that the effect adds to \<open>modelGroup\<close>: the body mesh (a lathe geometry
  over the profile with 48 segments, scaled by \<open>(1, 1, 0.7)\<close>), a \<open>THREE.Line\<close> for each
  tape (height, the two radii and the colour passed to \<open>createTape\<close>; 64 divisions), and
  the floor grid (a \<open>THREE.GridHelper\<close>, which is a line object too).
\<close>

datatype Object3D =
    Mesh "Vector2 list" nat real
  | Line jsnum jsnum jsnum nat
  | GridHelper nat nat nat nat

record ModelGroup =
  children :: "Object3D list"
  position_y :: jsnum

definition createTape :: "jsnum \<Rightarrow> jsnum \<Rightarrow> jsnum \<Rightarrow> nat \<Rightarrow> Object3D" where
  "createTape yPos rx rz tapeColor = Line yPos rx rz tapeColor"

text \<open>
  The second effect: it empties the group, then adds the mesh, the chest, waist and hip
  tapes and the grid, and sets the vertical offset.
\<close>

definition rebuildModel :: "BodyMeasurements \<Rightarrow> ModelGroup \<Rightarrow> ModelGroup" where
  "rebuildModel m modelGroup =
     (let scaleFactor = js_div (height m) (Num 100);
          mesh = Mesh (profile m) 48 (7 / 10);
          chest = createTape (js_mul (Num (72 / 100)) scaleFactor)
                    (js_add (js_div (chestWidth m) (Num 2)) (Num (5 / 1000)))
                    (js_add (js_mul (js_div (chestWidth m) (Num 2)) (Num (7 / 10))) (Num (5 / 1000)))
                    0xec4899;
          waist = createTape (js_mul (Num (58 / 100)) scaleFactor)
                    (js_add (js_div (waistWidth m) (Num 2)) (Num (5 / 1000)))
                    (js_add (js_mul (js_div (waistWidth m) (Num 2)) (Num (7 / 10))) (Num (5 / 1000)))
                    0x22d3ee;
          hip = createTape (js_mul (Num (45 / 100)) scaleFactor)
                    (js_add (js_div (hipWidth m) (Num 2)) (Num (5 / 1000)))
                    (js_add (js_mul (js_div (hipWidth m) (Num 2)) (Num (7 / 10))) (Num (5 / 1000)))
                    0x818cf8;
          grid = GridHelper 6 30 0x334155 0x1e293b
      in modelGroup\<lparr> children := [mesh, chest, waist, hip, grid],
                     position_y := js_mul (Num (- (45 / 100))) scaleFactor \<rparr>)"

text \<open>
  \<open>OBJExporter\<close> is three.js's: its \<open>parse\<close> visits the object and all its children
  and writes, for every mesh, its vertex and face records and, for every line object
  (a \<open>GridHelper\<close> is one), its vertex records.  The exported text is modelled as the list
  of these blocks, one for each object written.
\<close>

datatype obj_block = MeshBlock Object3D | LineBlock Object3D

fun parse_child :: "Object3D \<Rightarrow> obj_block list" where
  "parse_child (Mesh points segments scale_z) = [MeshBlock (Mesh points segments scale_z)]"
| "parse_child (Line yPos rx rz tapeColor) = [LineBlock (Line yPos rx rz tapeColor)]"
| "parse_child (GridHelper gsize divisions color1 color2) =
     [LineBlock (GridHelper gsize divisions color1 color2)]"

definition OBJExporter_parse :: "ModelGroup \<Rightarrow> obj_block list" where
  "OBJExporter_parse modelGroup = concat (map parse_child (children modelGroup))"

record Download =
  download :: string
  blob_type :: string
  blob :: "obj_block list"

text \<open>\<open>exportToOBJ\<close>: nothing happens while \<open>sceneRef.current\<close> is null.\<close>

definition exportToOBJ :: "ModelGroup option \<Rightarrow> Download option" where
  "exportToOBJ sceneRef =
     (case sceneRef of
        None \<Rightarrow> None
      | Some modelGroup \<Rightarrow>
          Some \<lparr> download = ''Body3DMetric_Scan.obj'', blob_type = ''text/plain'',
                 blob = OBJExporter_parse modelGroup \<rparr>)"

section \<open>Example inputs\<close>

text \<open>
  A view state with the entered height (weight 70, age 30, nothing analysed yet), and an
  oracle response with the given waist ratio, hip ratio and confidence.
\<close>

definition sample_state :: "real \<Rightarrow> AppState" where
  "sample_state h = \<lparr> st_step = Camera, st_height = Num h, st_weight = Num 70, st_age = Num 30,
      st_measurements = None, st_error = None, st_isProcessing = False \<rparr>"

definition sample_analysis :: "jsnum option \<Rightarrow> jsnum option \<Rightarrow> jsnum option \<Rightarrow> AnalysisResponse" where
  "sample_analysis waist hip conf =
     \<lparr> measurements = Some \<lparr> waistRatio = waist, hipRatio = hip,
         shoulderRatio = Some (Num (25 / 100)), chestRatio = Some (Num (2 / 10)),
         torsoHeightRatio = Some (Num (3 / 10)) \<rparr>,
       confidence = conf \<rparr>"

text \<open>A measurement record to sample the generator with: height in cm, widths in metres.\<close>

definition sample_measurements :: "real \<Rightarrow> BodyMeasurements" where
  "sample_measurements h =
     \<lparr> height = Num h, weight = Num 70, age = Some (Num 30),
       waistWidth = Num (30 / 100), hipWidth = Num (34 / 100),
       shoulderWidth = Num (42 / 100), chestWidth = Num (34 / 100),
       waistCircumference = Num 85, hipCircumference = Num 96,
       bmi = Num (242 / 10), whr = Num (89 / 100), whtr = Num (5 / 10) \<rparr>"

section \<open>Auxiliary facts about the number model\<close>

lemma Math_pow_Num [simp]: "Math_pow (Num a) n = Num (a ^ n)"
  by (cases n) simp_all

subsection \<open>The perimeter on finite arguments\<close>

lemma ratio_sq:
  fixes w d :: real
  assumes "w \<noteq> 0"
  shows "(w / 2 - w * d / 2)\<^sup>2 / (w / 2 + w * d / 2)\<^sup>2 = ((1 - d) / (1 + d))\<^sup>2"
proof -
  have n: "w / 2 - w * d / 2 = (w / 2) * (1 - d)" by (simp add: algebra_simps)
  have m: "w / 2 + w * d / 2 = (w / 2) * (1 + d)" by (simp add: algebra_simps)
  have "w / 2 \<noteq> 0" using assms by simp
  then have "(w / 2 - w * d / 2) / (w / 2 + w * d / 2) = (1 - d) / (1 + d)"
    unfolding n m by (rule mult_divide_mult_cancel_left)
  then show ?thesis by (simp add: power_divide [symmetric])
qed

lemma axes_sum_nonzero:
  fixes w d :: real
  assumes "w \<noteq> 0" "0 \<le> d"
  shows "w / 2 + w * d / 2 \<noteq> 0"
proof -
  have "1 + d \<noteq> 0" using assms by linarith
  then have "w * (1 + d) / 2 \<noteq> 0" using assms by simp
  moreover have "w / 2 + w * d / 2 = w * (1 + d) / 2" by (simp add: algebra_simps)
  ultimately show ?thesis by (simp only:) simp
qed

lemma h_approx_Num:
  assumes "w \<noteq> 0" "0 \<le> d"
  shows "h_approx (Num d) (Num w) = Num (((1 - d) / (1 + d))\<^sup>2)"
  using ratio_sq [OF assms(1), of d] axes_sum_nonzero [OF assms]
  by (simp add: h_approx_def ellipse_a_def ellipse_b_def js_sub_def Let_def)

lemma k_le_1:
  assumes "0 \<le> (d::real)"
  shows "((1 - d) / (1 + d))\<^sup>2 \<le> 1"
proof -
  have "\<bar>(1 - d) / (1 + d)\<bar> \<le> 1" using assms by (simp add: field_simps abs_le_iff)
  then show ?thesis by (simp add: power2_le_iff_abs_le abs_square_le_1)
qed

lemma spec_perimeter_shape:
  assumes "w \<noteq> 0"
  shows "spec_perimeter d w = pi * w * shape d"
proof -
  have c: "pi * (w / 2 + w * d / 2) * X = pi * w * ((1 + d) / 2 * X)" for X
    by (simp add: algebra_simps)
  show ?thesis
    by (simp only: spec_perimeter_def shape_def Let_def ratio_sq [OF assms] c)
qed

lemma perimeter_spec:
  assumes "w \<noteq> 0" "0 \<le> d"
  shows "perimeter (Num d) (Num w) = Num (spec_perimeter d w)"
proof -
  let ?k = "((1 - d) / (1 + d))\<^sup>2"
  have k: "\<not> 4 - 3 * ?k < 0" using k_le_1 [OF assms(2)] by linarith
  have s: "10 + sqrt (4 - 3 * ?k) \<noteq> 0"
  proof -
    have "0 \<le> sqrt (4 - 3 * ?k)" using k by simp
    then show ?thesis by linarith
  qed
  have "perimeter (Num d) (Num w)
      = Num (pi * (w / 2 + w * d / 2) * (1 + 3 * ?k / (10 + sqrt (4 - 3 * ?k))))"
    using k s
    by (simp add: perimeter_def h_approx_Num [OF assms] ellipse_a_def ellipse_b_def js_sub_def
        Math_PI_def Let_def)
  then show ?thesis
    by (simp only: spec_perimeter_def Let_def ratio_sq [OF assms(1)])
qed

lemma perimeter_Num:
  assumes "w \<noteq> 0" "0 \<le> d"
  shows "perimeter (Num d) (Num w) = Num (pi * w * shape d)"
  by (simp only: perimeter_spec [OF assms] spec_perimeter_shape [OF assms(1)])

lemma calcCircumference_Num:
  assumes "w \<noteq> 0" "0 \<le> d"
  shows "calcCircumference (Num d) (Num w) = Num (of_int \<lfloor>pi * w * shape d + 1 / 2\<rfloor>)"
  by (simp add: calcCircumference_def perimeter_Num [OF assms])

subsection \<open>Numerical bounds\<close>

text \<open>
  \<open>\<pi>\<close> lies between \<open>3.14\<close> and \<open>3.142\<close>: the cosine changes sign between \<open>1.57\<close>
  and \<open>1.571\<close>, by its Taylor polynomial of degree eight and the remainder term.
\<close>

lemma cos_taylor10:
  fixes x :: real
  assumes "0 < x"
  shows "\<bar>cos x - (1 - x^2/2 + x^4/24 - x^6/720 + x^8/40320)\<bar> \<le> x^10 / 3628800"
proof -
  obtain t where t: "cos x = (\<Sum>m<10. cos_coeff m * x ^ m)
      + (cos (t + 1/2 * real 10 * pi) / fact 10) * x ^ 10"
    using Maclaurin_cos_expansion2 [of x 10] assms by auto
  have set10: "{..<10::nat} = {0,1,2,3,4,5,6,7,8,9}" by auto
  have s: "(\<Sum>m<10. cos_coeff m * x ^ m) = 1 - x^2/2 + x^4/24 - x^6/720 + x^8/40320"
    unfolding set10 by (simp add: cos_coeff_def fact_numeral)
  have f: "fact 10 = (3628800::real)" by (simp add: fact_numeral)
  have "\<bar>cos x - (1 - x^2/2 + x^4/24 - x^6/720 + x^8/40320)\<bar>
      = \<bar>cos (t + 1/2 * real 10 * pi)\<bar> * (x ^ 10 / 3628800)"
    unfolding t s f using assms by (simp add: abs_mult)
  also have "\<dots> \<le> 1 * (x ^ 10 / 3628800)"
    by (rule mult_right_mono) (use assms in auto)
  finally show ?thesis by simp
qed

lemma pi_upper: "pi < 3142 / 1000"
proof (rule ccontr)
  assume "\<not> pi < 3142 / 1000"
  then have le: "(1571 / 1000 :: real) \<le> pi / 2" by simp
  have "cos (pi / 2) \<le> cos (1571 / 1000 :: real)"
    by (rule cos_monotone_0_pi_le) (use le in auto)
  then have "0 \<le> cos (1571 / 1000 :: real)" by simp
  moreover have "cos (1571 / 1000 :: real) < 0"
  proof -
    let ?x = "1571 / 1000 :: real"
    have "0 < ?x" by simp
    from cos_taylor10 [OF this]
    have a: "cos ?x \<le> (1 - ?x^2/2 + ?x^4/24 - ?x^6/720 + ?x^8/40320) + ?x^10 / 3628800"
      unfolding abs_le_iff by linarith
    have b: "(1 - ?x^2/2 + ?x^4/24 - ?x^6/720 + ?x^8/40320) + ?x^10 / 3628800 < 0"
      by (simp add: power_divide)
    show ?thesis using a b by linarith
  qed
  ultimately show False by simp
qed

lemma pi_lower: "314 / 100 < pi"
proof (rule ccontr)
  assume "\<not> 314 / 100 < pi"
  then have le: "pi / 2 \<le> (157 / 100 :: real)" by simp
  have "cos (157 / 100 :: real) \<le> cos (pi / 2)"
    by (rule cos_monotone_0_pi_le) (use le pi_ge_two in auto)
  then have "cos (157 / 100 :: real) \<le> 0" by simp
  moreover have "0 < cos (157 / 100 :: real)"
  proof -
    let ?x = "157 / 100 :: real"
    have "0 < ?x" by simp
    from cos_taylor10 [OF this]
    have a: "(1 - ?x^2/2 + ?x^4/24 - ?x^6/720 + ?x^8/40320) - ?x^10 / 3628800 \<le> cos ?x"
      unfolding abs_le_iff by linarith
    have b: "0 < (1 - ?x^2/2 + ?x^4/24 - ?x^6/720 + ?x^8/40320) - ?x^10 / 3628800"
      by (simp add: power_divide)
    show ?thesis using a b by linarith
  qed
  ultimately show False by simp
qed

lemma term_bounds:
  fixes c x lo hi :: real
  assumes "0 \<le> c" "0 \<le> lo" "lo\<^sup>2 \<le> x" "x \<le> hi\<^sup>2" "0 \<le> hi"
  shows "c / (10 + hi) \<le> c / (10 + sqrt x)" and "c / (10 + sqrt x) \<le> c / (10 + lo)"
proof -
  have l: "lo \<le> sqrt x" using assms by (simp add: real_le_rsqrt)
  have h: "sqrt x \<le> hi" using assms by (simp add: real_le_lsqrt)
  show "c / (10 + hi) \<le> c / (10 + sqrt x)"
    by (rule divide_left_mono) (use assms l h in auto)
  show "c / (10 + sqrt x) \<le> c / (10 + lo)"
    by (rule divide_left_mono) (use assms l h in auto)
qed

lemma shape_bounds:
  fixes d k lo hi :: real
  assumes "0 \<le> d" "k = ((1 - d) / (1 + d))\<^sup>2" "0 \<le> lo" "lo\<^sup>2 \<le> 4 - 3 * k"
    "4 - 3 * k \<le> hi\<^sup>2" "0 \<le> hi"
  shows "(1 + d) / 2 * (1 + 3 * k / (10 + hi)) \<le> shape d"
    and "shape d \<le> (1 + d) / 2 * (1 + 3 * k / (10 + lo))"
proof -
  have k0: "0 \<le> 3 * k" unfolding assms(2) by simp
  have e: "shape d = (1 + d) / 2 * (1 + 3 * k / (10 + sqrt (4 - 3 * k)))"
    by (simp add: shape_def Let_def assms(2))
  have p: "0 \<le> (1 + d) / 2" using assms(1) by simp
  have "1 + 3 * k / (10 + hi) \<le> 1 + 3 * k / (10 + sqrt (4 - 3 * k))"
    using term_bounds(1) [OF k0 assms(3) assms(4) assms(5) assms(6)] by simp
  then show "(1 + d) / 2 * (1 + 3 * k / (10 + hi)) \<le> shape d"
    unfolding e by (rule mult_left_mono [OF _ p])
  have "1 + 3 * k / (10 + sqrt (4 - 3 * k)) \<le> 1 + 3 * k / (10 + lo)"
    using term_bounds(2) [OF k0 assms(3) assms(4) assms(5) assms(6)] by simp
  then show "shape d \<le> (1 + d) / 2 * (1 + 3 * k / (10 + lo))"
    unfolding e by (rule mult_left_mono [OF _ p])
qed

lemma shape_70: "856 / 1000 \<le> shape (7 / 10)" "shape (7 / 10) \<le> 857 / 1000"
proof -
  have b1: "(1 + 7 / 10) / 2 * (1 + 3 * (9 / 289) / (10 + 198 / 100)) \<le> shape (7 / 10)"
    by (rule shape_bounds(1) [where k = "9 / 289" and lo = 0]; simp add: power2_eq_square)
  have b2: "shape (7 / 10) \<le> (1 + 7 / 10) / 2 * (1 + 3 * (9 / 289) / (10 + 197 / 100))"
    by (rule shape_bounds(2) [where k = "9 / 289" and hi = 2]; simp add: power2_eq_square)
  show "856 / 1000 \<le> shape (7 / 10)" using b1 by simp
  show "shape (7 / 10) \<le> 857 / 1000" using b2 by simp
qed

lemma shape_75: "8794 / 10000 \<le> shape (75 / 100)" "shape (75 / 100) \<le> 8795 / 10000"
proof -
  have b1: "(1 + 75 / 100) / 2 * (1 + 3 * (1 / 49) / (10 + 199 / 100)) \<le> shape (75 / 100)"
    by (rule shape_bounds(1) [where k = "1 / 49" and lo = 0]; simp add: power2_eq_square)
  have b2: "shape (75 / 100) \<le> (1 + 75 / 100) / 2 * (1 + 3 * (1 / 49) / (10 + 198 / 100))"
    by (rule shape_bounds(2) [where k = "1 / 49" and hi = 2]; simp add: power2_eq_square)
  show "8794 / 10000 \<le> shape (75 / 100)" using b1 by simp
  show "shape (75 / 100) \<le> 8795 / 10000" using b2 by simp
qed

lemma shape_78: "8934 / 10000 \<le> shape (78 / 100)" "shape (78 / 100) \<le> 89341 / 100000"
proof -
  have b1: "(1 + 78 / 100) / 2 * (1 + 3 * (121 / 7921) / (10 + 199 / 100)) \<le> shape (78 / 100)"
    by (rule shape_bounds(1) [where k = "121 / 7921" and lo = 0]; simp add: power2_eq_square)
  have b2: "shape (78 / 100) \<le> (1 + 78 / 100) / 2 * (1 + 3 * (121 / 7921) / (10 + 198 / 100))"
    by (rule shape_bounds(2) [where k = "121 / 7921" and hi = 2]; simp add: power2_eq_square)
  show "8934 / 10000 \<le> shape (78 / 100)" using b1 by simp
  show "shape (78 / 100) \<le> 89341 / 100000" using b2 by simp
qed

lemma perimeter_bounds:
  fixes w sl su :: real
  assumes "0 < w" "sl \<le> shape d" "shape d \<le> su" "0 \<le> sl"
  shows "314 / 100 * w * sl \<le> pi * w * shape d" and "pi * w * shape d \<le> 3142 / 1000 * w * su"
proof -
  have a: "314 / 100 * w \<le> pi * w" using pi_lower assms(1) by simp
  have b: "pi * w \<le> 3142 / 1000 * w" using pi_upper assms(1) by simp
  have c: "0 \<le> shape d" using assms by linarith
  show "314 / 100 * w * sl \<le> pi * w * shape d"
    by (rule mult_mono [OF a assms(2)]) (use assms in auto)
  show "pi * w * shape d \<le> 3142 / 1000 * w * su"
    by (rule mult_mono [OF b assms(3)]) (use assms c in auto)
qed

lemma circumference_80_70: "calcCircumference (Num (7 / 10)) (Num 80) = Num 215"
proof -
  have l: "314 / 100 * 80 * (856 / 1000) \<le> pi * 80 * shape (7 / 10)"
    by (rule perimeter_bounds(1) [OF _ shape_70]) simp_all
  have u: "pi * 80 * shape (7 / 10) \<le> 3142 / 1000 * 80 * (857 / 1000)"
    by (rule perimeter_bounds(2) [OF _ shape_70]) simp_all
  have "\<lfloor>pi * 80 * shape (7 / 10) + 1 / 2\<rfloor> = 215"
    by (rule floor_unique) (use l u in simp_all)
  then show ?thesis by (simp add: calcCircumference_Num)
qed

lemma circumference_value:
  fixes w sl su d :: real and n :: int
  assumes "0 < w" "0 \<le> d" "sl \<le> shape d" "shape d \<le> su" "0 \<le> sl"
    "of_int n - 1 / 2 \<le> 314 / 100 * w * sl" "3142 / 1000 * w * su < of_int n + 1 / 2"
  shows "calcCircumference (Num d) (Num w) = Num (of_int n)"
proof -
  have l: "314 / 100 * w * sl \<le> pi * w * shape d"
    by (rule perimeter_bounds(1) [OF assms(1) assms(3) assms(4) assms(5)])
  have u: "pi * w * shape d \<le> 3142 / 1000 * w * su"
    by (rule perimeter_bounds(2) [OF assms(1) assms(3) assms(4) assms(5)])
  have "\<lfloor>pi * w * shape d + 1 / 2\<rfloor> = n"
    by (rule floor_unique) (use l u assms(6) assms(7) in linarith)+
  moreover have "w \<noteq> 0" using assms(1) by simp
  ultimately show ?thesis using assms(2) by (simp add: calcCircumference_Num)
qed

lemma circumference_tiny_75: "calcCircumference (Num (3 / 4)) (Num (1 / 10)) = Num 0"
  using circumference_value [where n = 0 and w = "1 / 10", OF _ _ shape_75] by simp

lemma circumference_20_75: "calcCircumference (Num (3 / 4)) (Num 20) = Num 55"
  using circumference_value [where n = 55 and w = 20, OF _ _ shape_75] by simp

lemma circumference_187_75: "calcCircumference (Num (3 / 4)) (Num (187 / 10)) = Num 52"
  using circumference_value [where n = 52 and w = "187 / 10", OF _ _ shape_75] by simp

lemma circumference_187_78: "calcCircumference (Num (39 / 50)) (Num (187 / 10)) = Num 52"
  using circumference_value [where n = 52 and w = "187 / 10", OF _ _ shape_78] by simp

subsection \<open>Non-finite quotients\<close>

lemma div_zero_not_finite: "\<not> isFinite (js_div x (Num 0))"
  by (cases x) simp_all

lemma toFixed_not_finite: "\<not> isFinite x \<Longrightarrow> \<not> isFinite (Number_toFixed d x)"
  by (cases x) simp_all

subsection \<open>What \<open>processImage\<close> stores\<close>

lemma computeMeasurements_Some:
  assumes "measurements analysis = Some r"
  shows "\<exists>m. computeMeasurements hh wt ag analysis = Inr m
     \<and> height m = hh \<and> weight m = wt
     \<and> waistWidth m = js_div (js_mul (toNumber (waistRatio r)) hh) (Num 100)
     \<and> hipWidth m = js_div (js_mul (toNumber (hipRatio r)) hh) (Num 100)
     \<and> shoulderWidth m = js_div (js_mul (toNumber (shoulderRatio r)) hh) (Num 100)
     \<and> chestWidth m = js_div (js_mul (toNumber (chestRatio r)) hh) (Num 100)
     \<and> waistCircumference m = calcCircumference (depthFactor_of ag) (js_mul (toNumber (waistRatio r)) hh)
     \<and> hipCircumference m = calcCircumference (depthFactor_of ag) (js_mul (toNumber (hipRatio r)) hh)
     \<and> bmi m = bmi_of wt hh
     \<and> whr m = whr_of (waistCircumference m) (hipCircumference m)
     \<and> whtr m = whtr_of (waistCircumference m) hh"
  using assms by (simp add: computeMeasurements_def Let_def)

lemma processImage_Inr:
  assumes "computeMeasurements (st_height s) (st_weight s) (st_age s) analysis = Inr m"
  shows "processImage s (Inr analysis)
     = s\<lparr> st_step := Result, st_isProcessing := False, st_error := None,
          st_measurements := Some m \<rparr>"
  using assms by (simp add: processImage_def Let_def)

lemma processImage_Inl:
  assumes "computeMeasurements (st_height s) (st_weight s) (st_age s) analysis = Inl e"
  shows "processImage s (Inr analysis)
     = s\<lparr> st_step := Camera, st_isProcessing := False, st_error := Some (error_message e) \<rparr>"
  using assms by (simp add: processImage_def Let_def)

lemma zero_hip_run:
  "computeMeasurements (Num 100) (Num 70) (Num 30)
      (sample_analysis (Some (Num (2 / 10))) (Some (Num (1 / 1000))) None) = Inr m
   \<Longrightarrow> waistCircumference m = Num 55 \<and> hipCircumference m = Num 0 \<and> whr m = PInf"
  by (auto simp add: computeMeasurements_def sample_analysis_def Let_def depthFactor_of_def js_gt_def
      circumference_20_75 circumference_tiny_75 whr_of_def)

lemma zero_height_run:
  "computeMeasurements (Num 0) (Num 70) (Num 30)
      (sample_analysis (Some (Num (2 / 10))) (Some (Num (2 / 10))) None) = Inr m
   \<Longrightarrow> waistCircumference m = NaN \<and> hipCircumference m = NaN \<and> whr m = NaN \<and> whtr m = NaN \<and> bmi m = PInf"
  by (auto simp add: computeMeasurements_def sample_analysis_def Let_def depthFactor_of_def js_gt_def
       whr_of_def whtr_of_def bmi_of_def calcCircumference_def perimeter_def h_approx_def
       ellipse_a_def ellipse_b_def js_sub_def Math_PI_def)

lemma computeMeasurements_simple_Some:
  assumes "measurements analysis = Some r"
  shows "\<exists>m. computeMeasurements_simple hh wt analysis = Inr m
     \<and> height m = hh \<and> weight m = wt
     \<and> waistWidth m = js_div (js_mul (toNumber (waistRatio r)) hh) (Num 100)
     \<and> hipWidth m = js_div (js_mul (toNumber (hipRatio r)) hh) (Num 100)
     \<and> shoulderWidth m = js_div (js_mul (toNumber (shoulderRatio r)) hh) (Num 100)
     \<and> chestWidth m = js_div (js_mul (toNumber (chestRatio r)) hh) (Num 100)
     \<and> waistCircumference m = calcCircumference_simple (js_mul (toNumber (waistRatio r)) hh)
     \<and> hipCircumference m = calcCircumference_simple (js_mul (toNumber (hipRatio r)) hh)
     \<and> bmi m = bmi_of wt hh
     \<and> whr m = whr_of (waistCircumference m) (hipCircumference m)
     \<and> whtr m = whtr_of (waistCircumference m) hh"
  using assms by (simp add: computeMeasurements_simple_def Let_def)

lemma processImage_simple_Inr:
  assumes "computeMeasurements_simple (st_height s) (st_weight s) analysis = Inr m"
  shows "processImage_simple s (Inr analysis)
     = s\<lparr> st_step := Result, st_isProcessing := False, st_error := None,
          st_measurements := Some m \<rparr>"
  using assms by (simp add: processImage_simple_def Let_def)

lemma processImage_simple_Inl:
  assumes "computeMeasurements_simple (st_height s) (st_weight s) analysis = Inl e"
  shows "processImage_simple s (Inr analysis)
     = s\<lparr> st_step := Camera, st_isProcessing := False, st_error := Some (error_message e) \<rparr>"
  using assms by (simp add: processImage_simple_def Let_def)




lemma circumference_tiny_70: "calcCircumference (Num (7 / 10)) (Num (1 / 10)) = Num 0"
  using circumference_value [where n = 0 and w = "1 / 10", OF _ _ shape_70] by simp

lemma circumference_20_70: "calcCircumference (Num (7 / 10)) (Num 20) = Num 54"
  using circumference_value [where n = 54 and w = 20, OF _ _ shape_70] by simp

lemma zero_hip_run_simple:
  "computeMeasurements_simple (Num 100) (Num 70)
      (sample_analysis (Some (Num (2 / 10))) (Some (Num (1 / 1000))) None) = Inr m
   \<Longrightarrow> waistCircumference m = Num 54 \<and> hipCircumference m = Num 0 \<and> whr m = PInf"
  by (auto simp add: computeMeasurements_simple_def sample_analysis_def Let_def
      calcCircumference_simple_def circumference_20_70 circumference_tiny_70 whr_of_def)

lemma non_finite_indices:
  assumes "bmi m = bmi_of wt hh"
    and "whr m = whr_of (waistCircumference m) (hipCircumference m)"
    and "whtr m = whtr_of (waistCircumference m) hh"
  shows "hipCircumference m = Num 0 \<longrightarrow> \<not> isFinite (whr m)"
    and "hh = Num 0 \<longrightarrow> \<not> isFinite (whtr m) \<and> \<not> isFinite (bmi m)"
proof -
  show "hipCircumference m = Num 0 \<longrightarrow> \<not> isFinite (whr m)"
  proof
    assume z: "hipCircumference m = Num 0"
    show "\<not> isFinite (whr m)"
      unfolding assms(2) z whr_of_def by (intro toFixed_not_finite div_zero_not_finite)
  qed
  show "hh = Num 0 \<longrightarrow> \<not> isFinite (whtr m) \<and> \<not> isFinite (bmi m)"
  proof
    assume z: "hh = Num 0"
    have "\<not> isFinite (whtr m)"
      unfolding assms(3) z whtr_of_def by (intro toFixed_not_finite div_zero_not_finite)
    moreover have "\<not> isFinite (bmi m)"
      unfolding assms(1) z bmi_of_def by (simp add: toFixed_not_finite div_zero_not_finite)
    ultimately show "\<not> isFinite (whtr m) \<and> \<not> isFinite (bmi m)" by simp
  qed
qed

subsection \<open>The two depth factors of the extended variant\<close>

lemma depthFactor_of_Num:
  "depthFactor_of (Num a) = (if 50 < a then Num (78 / 100) else Num (75 / 100))"
  by (simp add: depthFactor_of_def js_gt_def)

lemma age_perimeter_gap:
  fixes w :: real
  assumes "0 < w"
  shows "pi * w * shape (75 / 100) + 314 / 100 * w * (139 / 10000) \<le> pi * w * shape (78 / 100)"
proof -
  have g: "139 / 10000 \<le> shape (78 / 100) - shape (75 / 100)"
    using shape_75(2) shape_78(1) by linarith
  have p: "0 \<le> pi * w" using assms by simp
  have "314 / 100 * w * (139 / 10000) \<le> pi * w * (139 / 10000)"
    using pi_lower assms by simp
  also have "\<dots> \<le> pi * w * (shape (78 / 100) - shape (75 / 100))"
    by (rule mult_left_mono [OF g p])
  finally show ?thesis by (simp add: algebra_simps)
qed

lemma age_circumference_ge:
  fixes w :: real
  assumes "0 < w"
  shows "\<lfloor>pi * w * shape (75 / 100) + 1 / 2\<rfloor> \<le> \<lfloor>pi * w * shape (78 / 100) + 1 / 2\<rfloor>"
proof -
  have "0 \<le> 314 / 100 * w * (139 / 10000)" using assms by simp
  then have "pi * w * shape (75 / 100) + 1 / 2 \<le> pi * w * shape (78 / 100) + 1 / 2"
    using age_perimeter_gap [OF assms] by linarith
  then show ?thesis by (rule floor_mono)
qed

lemma floor_gap:
  fixes x y :: real
  assumes "x + 1 \<le> y"
  shows "\<lfloor>x\<rfloor> < \<lfloor>y\<rfloor>"
proof -
  have "of_int \<lfloor>x\<rfloor> + 1 \<le> y" using assms of_int_floor_le [of x] by linarith
  then have "of_int (\<lfloor>x\<rfloor> + 1) \<le> y" by simp
  then have "\<lfloor>x\<rfloor> + 1 \<le> \<lfloor>y\<rfloor>" by (simp only: le_floor_iff)
  then show ?thesis by linarith
qed

lemma age_circumference_gt:
  fixes w :: real
  assumes "23 \<le> w"
  shows "\<lfloor>pi * w * shape (75 / 100) + 1 / 2\<rfloor> < \<lfloor>pi * w * shape (78 / 100) + 1 / 2\<rfloor>"
proof -
  have w: "0 < w" using assms by simp
  have "1 \<le> 314 / 100 * w * (139 / 10000)" using assms by simp
  then have "(pi * w * shape (75 / 100) + 1 / 2) + 1 \<le> pi * w * shape (78 / 100) + 1 / 2"
    using age_perimeter_gap [OF w] by linarith
  then show ?thesis by (rule floor_gap)
qed

lemma age_calcCircumference:
  fixes w :: real
  assumes "0 < w"
  shows "js_ge (calcCircumference (depthFactor_of (Num 60)) (Num w))
               (calcCircumference (depthFactor_of (Num 40)) (Num w))"
    and "23 \<le> w \<Longrightarrow> js_gt (calcCircumference (depthFactor_of (Num 60)) (Num w))
               (calcCircumference (depthFactor_of (Num 40)) (Num w))"
    and "js_gt (perimeter (depthFactor_of (Num 60)) (Num w))
               (perimeter (depthFactor_of (Num 40)) (Num w))"
proof -
  have n: "w \<noteq> 0" using assms by simp
  have c60: "calcCircumference (depthFactor_of (Num 60)) (Num w)
      = Num (of_int \<lfloor>pi * w * shape (78 / 100) + 1 / 2\<rfloor>)"
    unfolding depthFactor_of_Num using calcCircumference_Num [OF n, of "78 / 100"] by simp
  have c40: "calcCircumference (depthFactor_of (Num 40)) (Num w)
      = Num (of_int \<lfloor>pi * w * shape (75 / 100) + 1 / 2\<rfloor>)"
    unfolding depthFactor_of_Num using calcCircumference_Num [OF n, of "75 / 100"] by simp
  show "js_ge (calcCircumference (depthFactor_of (Num 60)) (Num w))
               (calcCircumference (depthFactor_of (Num 40)) (Num w))"
    unfolding c60 c40 js_ge_def using age_circumference_ge [OF assms] by simp
  show "js_gt (calcCircumference (depthFactor_of (Num 60)) (Num w))
               (calcCircumference (depthFactor_of (Num 40)) (Num w))" if "23 \<le> w"
    unfolding c60 c40 js_gt_def using age_circumference_gt [OF that] by simp
  have p60: "perimeter (depthFactor_of (Num 60)) (Num w) = Num (pi * w * shape (78 / 100))"
    unfolding depthFactor_of_Num using perimeter_Num [OF n, of "78 / 100"] by simp
  have p40: "perimeter (depthFactor_of (Num 40)) (Num w) = Num (pi * w * shape (75 / 100))"
    unfolding depthFactor_of_Num using perimeter_Num [OF n, of "75 / 100"] by simp
  have "0 < 314 / 100 * w * (139 / 10000)" using assms by simp
  then have "pi * w * shape (75 / 100) < pi * w * shape (78 / 100)"
    using age_perimeter_gap [OF assms] by linarith
  then show "js_gt (perimeter (depthFactor_of (Num 60)) (Num w))
               (perimeter (depthFactor_of (Num 40)) (Num w))"
    unfolding p60 p40 js_gt_def by simp
qed

subsection \<open>The profile loops\<close>

text \<open>The loops are unfolded one step at a time, never by the simplifier on its own.\<close>

declare profile_loop_simple.simps [simp del]
declare profile_loop.simps [simp del]

lemma profile_loop_simple_map:
  "i \<le> 21 \<Longrightarrow> profile_loop_simple m i points = points @ map (profile_point_simple m) [i..<21]"
proof (induction m i points rule: profile_loop_simple.induct)
  case (1 m i points)
  show ?case
  proof (cases "i \<le> 20")
    case True
    have "profile_loop_simple m i points = profile_loop_simple m (Suc i) (points @ [profile_point_simple m i])"
      using True by (subst profile_loop_simple.simps) simp
    also have "\<dots> = (points @ [profile_point_simple m i]) @ map (profile_point_simple m) [Suc i..<21]"
      using True by (intro "1.IH") simp_all
    also have "\<dots> = points @ map (profile_point_simple m) [i..<21]"
      using True by (simp add: upt_conv_Cons)
    finally show ?thesis .
  next
    case False
    with "1.prems" have "i = 21" by simp
    then show ?thesis by (subst profile_loop_simple.simps) simp
  qed
qed

lemma profile_loop_map:
  "i \<le> 41 \<Longrightarrow> profile_loop m i points = points @ map (profile_point m) [i..<41]"
proof (induction m i points rule: profile_loop.induct)
  case (1 m i points)
  show ?case
  proof (cases "i \<le> 40")
    case True
    have "profile_loop m i points = profile_loop m (Suc i) (points @ [profile_point m i])"
      using True by (subst profile_loop.simps) simp
    also have "\<dots> = (points @ [profile_point m i]) @ map (profile_point m) [Suc i..<41]"
      using True by (intro "1.IH") simp_all
    also have "\<dots> = points @ map (profile_point m) [i..<41]"
      using True by (simp add: upt_conv_Cons)
    finally show ?thesis .
  next
    case False
    with "1.prems" have "i = 41" by simp
    then show ?thesis by (subst profile_loop.simps) simp
  qed
qed

lemma profile_simple_map: "profile_simple m = map (profile_point_simple m) [0..<21]"
  by (simp add: profile_simple_def profile_loop_simple_map)

lemma profile_map: "profile m = map (profile_point m) [0..<41]"
  by (simp add: profile_def profile_loop_map)

lemma vy_profile_point_simple:
  "height m = Num h \<Longrightarrow> vy (profile_point_simple m i) = Num (real i / 20 * (h / 100))"
  by (simp add: profile_point_simple_def Let_def)

lemma vy_profile_point:
  "height m = Num h \<Longrightarrow> vy (profile_point m i) = Num (real i / 40 * (h / 100))"
  by (simp add: profile_point_def Let_def)

lemma sorted_heights:
  fixes c s :: real
  assumes "0 \<le> s" "0 < c"
  shows "sorted_wrt js_le (map (\<lambda>i. Num (real i / c * s)) [0..<n])"
proof -
  have "real i / c * s \<le> real j / c * s" if "i < j" for i j :: nat
  proof -
    have "real i / c \<le> real j / c" using that assms(2) by (simp add: divide_right_mono)
    then show ?thesis using assms(1) by (rule mult_right_mono)
  qed
  then show ?thesis by (simp add: sorted_wrt_iff_nth_less)
qed

subsection \<open>Rounding to a double, and \<open>headT\<close> of the simple profile\<close>

text \<open>
  \<open>fl\<close> is evaluated at a number whose exponent is known: scaled by \<open>2 ^ k\<close> into
  \<open>[2 ^ 52, 2 ^ 53)\<close>, it is rounded to an integer there.  The doubles of \<open>0.9\<close> and
  \<open>0.1\<close> are \<open>8106479329266893 / 2 ^ 53\<close> and \<open>7205759403792794 / 2 ^ 56\<close>; the
  difference \<open>1 - 0.9\<close> is exact, and its quotient by \<open>0.1\<close> rounds to
  \<open>1 - 1 / 2 ^ 52\<close>, that is \<open>0.9999999999999998\<close>.
\<close>

lemma floor_log2:
  fixes y :: real and e :: int
  assumes "2 powr (of_int e) \<le> y" "y < 2 powr (of_int e + 1)"
  shows "\<lfloor>log 2 y\<rfloor> = e"
proof (rule floor_unique)
  have p: "0 < y" using assms(1) powr_gt_zero [of 2 "of_int e"] by linarith
  show "of_int e \<le> log 2 y" using assms(1) p by (simp add: le_log_iff)
  show "log 2 y < of_int e + 1" using assms(2) p by (simp add: log_less_iff)
qed

lemma fl_eval:
  fixes x :: real and k :: nat and n :: int
  assumes "2 ^ 52 \<le> x * 2 ^ k" "x * 2 ^ k < 2 ^ 53" "rne (x * 2 ^ k) = n"
  shows "fl x = of_int n / 2 ^ k"
proof -
  have x: "0 < x"
  proof (rule ccontr)
    assume "\<not> 0 < x"
    then have "x * 2 ^ k \<le> 0" by (simp add: mult_le_0_iff)
    moreover have "(0::real) < 2 ^ 52" by simp
    ultimately show False using assms(1) by linarith
  qed
  have pk: "(2::real) powr (- real k) = 1 / 2 ^ k"
    by (simp add: powr_minus powr_realpow divide_simps)
  have lo: "2 powr (of_int (52 - int k)) \<le> x"
  proof -
    have "2 powr (of_int (52 - int k)) = (2::real) ^ 52 / 2 ^ k"
      by (simp add: powr_diff powr_realpow)
    also have "\<dots> \<le> x" using assms(1) by (simp add: divide_simps)
    finally show ?thesis .
  qed
  have hi: "x < 2 powr (of_int (52 - int k) + 1)"
  proof -
    have "2 powr (of_int (52 - int k) + 1) = (2::real) ^ 53 / 2 ^ k"
      by (simp add: powr_diff powr_add powr_realpow)
    moreover have "x < (2::real) ^ 53 / 2 ^ k" using assms(2) by (simp add: divide_simps)
    ultimately show ?thesis by simp
  qed
  have e: "\<lfloor>log 2 \<bar>x\<bar>\<rfloor> = 52 - int k"
    using floor_log2 [OF lo hi] x by simp
  have u: "(2::real) powr (of_int (52 - int k) - 52) = 1 / 2 ^ k"
    using pk by simp
  have "fl x = of_int (rne (x / (1 / 2 ^ k))) * (1 / 2 ^ k)"
    using x by (simp only: fl_def Let_def e u) simp
  also have "x / (1 / 2 ^ k) = x * 2 ^ k" by simp
  finally show ?thesis using assms(3) by simp
qed

lemma fl_0 [simp]: "fl 0 = 0"
  by (simp add: fl_def)

lemma fl_1 [simp]: "fl 1 = 1"
  using fl_eval [of 1 52 "2 ^ 52"] by (simp add: rne_def)







subsection \<open>The head region\<close>

lemma js_mul_NaN [simp]: "js_mul x NaN = NaN" "js_mul NaN x = NaN"
  by (cases x; simp)+
















section \<open>Properties\<close>

text \<open>
  C8.  With \<open>depthFactor = 1.0\<close> the two semi-axes coincide: for every finite width
  \<open>w > 0\<close> the value \<open>h_approx\<close> is \<open>0\<close> and the unrounded perimeter is the circle
  perimeter \<open>2\<pi>a\<close> with \<open>a = w / 2\<close>.
\<close>

theorem circle_degeneracy:
  assumes "0 < w"
  shows "h_approx (Num 1) (Num w) = Num 0
       \<and> perimeter (Num 1) (Num w) = Num (2 * pi * (w / 2))
       \<and> ellipse_a (Num w) = ellipse_b (Num 1) (Num w)"
  using assms
  by (simp add: h_approx_def perimeter_def ellipse_a_def ellipse_b_def js_sub_def
      Math_PI_def Let_def)

theorem circle_degeneracy_witness:
  "h_approx (Num 1) (Num 80) = Num 0
   \<and> perimeter (Num 1) (Num 80) = Num (2 * pi * (80 / 2))
   \<and> ellipse_a (Num 80) = ellipse_b (Num 1) (Num 80)"
  using circle_degeneracy [of 80] by simp

text \<open>
  C1.  For every finite width \<open>w > 0\<close> and depth factor \<open>d \<ge> 0\<close> the computed
  circumference is the documented formula rounded to the nearest integer.  For width 80
  and depth factor \<open>0.70\<close> (\<open>a = 40\<close>, \<open>b = 28\<close>) that integer is 215, in the simple
  variant's \<open>calcCircumference\<close> too.
\<close>

theorem circumference_formula:
  "(0 < w \<and> 0 \<le> d \<longrightarrow>
      calcCircumference (Num d) (Num w) = Num (of_int (spec_circumference d w)))
   \<and> calcCircumference (Num (7 / 10)) (Num 80) = Num 215
   \<and> calcCircumference_simple (Num 80) = Num 215"
proof -
  have "calcCircumference (Num d) (Num w) = Num (of_int (spec_circumference d w))"
    if "0 < w" "0 \<le> d"
  proof -
    have "w \<noteq> 0" using that by simp
    from perimeter_spec [OF this that(2)] show ?thesis
      by (simp add: calcCircumference_def spec_circumference_def round_def)
  qed
  then show ?thesis
    by (simp add: circumference_80_70 calcCircumference_simple_def)
qed

theorem circumference_formula_witness:
  "calcCircumference (Num (3 / 4)) (Num 30) = Num (of_int (spec_circumference (3 / 4) 30))"
  using circumference_formula [of 30 "3 / 4"] by simp

text \<open>
  The width 80 with depth factor \<open>0.70\<close> does not give 212: the rounded perimeter is
  215, three centimetres more.
\<close>

theorem circumference_80_not_212:
  "calcCircumference_simple (Num 80) \<noteq> Num 212
   \<and> calcCircumference_simple (Num 80) = Num 215"
  by (simp add: calcCircumference_simple_def circumference_80_70)




text \<open>
  C3.  No division is guarded, in either variant.  Whenever the parsed response has a \<open>measurements\<close>
  object a record is produced and exposed at the result step; with a hip circumference of
  0 its \<open>whr\<close> is not finite, and with a height of 0 neither \<open>whtr\<close> nor \<open>bmi\<close> is.
\<close>

theorem zero_division_unchecked:
  assumes "measurements analysis = Some r"
  shows "(\<exists>m. computeMeasurements hh wt ag analysis = Inr m
       \<and> (hipCircumference m = Num 0 \<longrightarrow> \<not> isFinite (whr m))
       \<and> (hh = Num 0 \<longrightarrow> \<not> isFinite (whtr m) \<and> \<not> isFinite (bmi m))
       \<and> (st_height s = hh \<and> st_weight s = wt \<and> st_age s = ag \<longrightarrow>
            st_measurements (processImage s (Inr analysis)) = Some m
          \<and> st_step (processImage s (Inr analysis)) = Result
          \<and> st_error (processImage s (Inr analysis)) = None))
     \<and> (\<exists>m. computeMeasurements_simple hh wt analysis = Inr m
       \<and> (hipCircumference m = Num 0 \<longrightarrow> \<not> isFinite (whr m))
       \<and> (hh = Num 0 \<longrightarrow> \<not> isFinite (whtr m) \<and> \<not> isFinite (bmi m))
       \<and> (st_height s = hh \<and> st_weight s = wt \<longrightarrow>
            st_measurements (processImage_simple s (Inr analysis)) = Some m
          \<and> st_step (processImage_simple s (Inr analysis)) = Result
          \<and> st_error (processImage_simple s (Inr analysis)) = None))"
proof
  from computeMeasurements_Some [OF assms, of hh wt ag]
  obtain m where m: "computeMeasurements hh wt ag analysis = Inr m"
    and b: "bmi m = bmi_of wt hh"
    and r: "whr m = whr_of (waistCircumference m) (hipCircumference m)"
    and t: "whtr m = whtr_of (waistCircumference m) hh"
    by blast
  have 4: "st_measurements (processImage s (Inr analysis)) = Some m
        \<and> st_step (processImage s (Inr analysis)) = Result
        \<and> st_error (processImage s (Inr analysis)) = None"
    if "st_height s = hh \<and> st_weight s = wt \<and> st_age s = ag"
  proof -
    have "computeMeasurements (st_height s) (st_weight s) (st_age s) analysis = Inr m"
      using m that by simp
    from processImage_Inr [OF this] show ?thesis by simp
  qed
  show "\<exists>m. computeMeasurements hh wt ag analysis = Inr m
       \<and> (hipCircumference m = Num 0 \<longrightarrow> \<not> isFinite (whr m))
       \<and> (hh = Num 0 \<longrightarrow> \<not> isFinite (whtr m) \<and> \<not> isFinite (bmi m))
       \<and> (st_height s = hh \<and> st_weight s = wt \<and> st_age s = ag \<longrightarrow>
            st_measurements (processImage s (Inr analysis)) = Some m
          \<and> st_step (processImage s (Inr analysis)) = Result
          \<and> st_error (processImage s (Inr analysis)) = None)"
    using m non_finite_indices [OF b r t] 4 by blast
next
  from computeMeasurements_simple_Some [OF assms, of hh wt]
  obtain m where m: "computeMeasurements_simple hh wt analysis = Inr m"
    and b: "bmi m = bmi_of wt hh"
    and r: "whr m = whr_of (waistCircumference m) (hipCircumference m)"
    and t: "whtr m = whtr_of (waistCircumference m) hh"
    by blast
  have 4: "st_measurements (processImage_simple s (Inr analysis)) = Some m
        \<and> st_step (processImage_simple s (Inr analysis)) = Result
        \<and> st_error (processImage_simple s (Inr analysis)) = None"
    if "st_height s = hh \<and> st_weight s = wt"
  proof -
    have "computeMeasurements_simple (st_height s) (st_weight s) analysis = Inr m"
      using m that by simp
    from processImage_simple_Inr [OF this] show ?thesis by simp
  qed
  show "\<exists>m. computeMeasurements_simple hh wt analysis = Inr m
       \<and> (hipCircumference m = Num 0 \<longrightarrow> \<not> isFinite (whr m))
       \<and> (hh = Num 0 \<longrightarrow> \<not> isFinite (whtr m) \<and> \<not> isFinite (bmi m))
       \<and> (st_height s = hh \<and> st_weight s = wt \<longrightarrow>
            st_measurements (processImage_simple s (Inr analysis)) = Some m
          \<and> st_step (processImage_simple s (Inr analysis)) = Result
          \<and> st_error (processImage_simple s (Inr analysis)) = None)"
    using m non_finite_indices [OF b r t] 4 by blast
qed

theorem zero_division_unchecked_witness:
  "(\<exists>m. computeMeasurements (Num 100) (Num 70) (Num 30)
          (sample_analysis (Some (Num (2 / 10))) (Some (Num (1 / 1000))) None) = Inr m
        \<and> hipCircumference m = Num 0 \<and> \<not> isFinite (whr m)
        \<and> st_step (processImage (sample_state 100)
             (Inr (sample_analysis (Some (Num (2 / 10))) (Some (Num (1 / 1000))) None))) = Result)
   \<and> (\<exists>m. computeMeasurements_simple (Num 100) (Num 70)
          (sample_analysis (Some (Num (2 / 10))) (Some (Num (1 / 1000))) None) = Inr m
        \<and> hipCircumference m = Num 0 \<and> \<not> isFinite (whr m)
        \<and> st_step (processImage_simple (sample_state 100)
             (Inr (sample_analysis (Some (Num (2 / 10))) (Some (Num (1 / 1000))) None))) = Result)
   \<and> (\<exists>m. computeMeasurements (Num 0) (Num 70) (Num 30)
          (sample_analysis (Some (Num (2 / 10))) (Some (Num (2 / 10))) None) = Inr m
        \<and> \<not> isFinite (whtr m) \<and> \<not> isFinite (bmi m))
   \<and> (\<exists>m. computeMeasurements_simple (Num 0) (Num 70)
          (sample_analysis (Some (Num (2 / 10))) (Some (Num (2 / 10))) None) = Inr m
        \<and> \<not> isFinite (whtr m) \<and> \<not> isFinite (bmi m))"
proof -
  have a: "measurements (sample_analysis x y None)
      = Some \<lparr> waistRatio = x, hipRatio = y, shoulderRatio = Some (Num (25 / 100)),
          chestRatio = Some (Num (2 / 10)), torsoHeightRatio = Some (Num (3 / 10)) \<rparr>" for x y
    by (simp add: sample_analysis_def)
  have s: "st_height (sample_state 100) = Num 100 \<and> st_weight (sample_state 100) = Num 70
      \<and> st_age (sample_state 100) = Num 30"
    by (simp add: sample_state_def)
  then have s': "st_height (sample_state 100) = Num 100 \<and> st_weight (sample_state 100) = Num 70"
    by simp
  note t1 = zero_division_unchecked [OF a, where hh = "Num 100" and wt = "Num 70"
      and ag = "Num 30" and s = "sample_state 100"]
  note t0 = zero_division_unchecked [OF a, where hh = "Num 0" and wt = "Num 70"
      and ag = "Num 30" and s = "sample_state 0"]
  from t1 [THEN conjunct1] s
  have 1: "\<exists>m. computeMeasurements (Num 100) (Num 70) (Num 30)
          (sample_analysis (Some (Num (2 / 10))) (Some (Num (1 / 1000))) None) = Inr m
        \<and> hipCircumference m = Num 0 \<and> \<not> isFinite (whr m)
        \<and> st_step (processImage (sample_state 100)
             (Inr (sample_analysis (Some (Num (2 / 10))) (Some (Num (1 / 1000))) None))) = Result"
    using zero_hip_run by blast
  from t1 [THEN conjunct2] s'
  have 2: "\<exists>m. computeMeasurements_simple (Num 100) (Num 70)
          (sample_analysis (Some (Num (2 / 10))) (Some (Num (1 / 1000))) None) = Inr m
        \<and> hipCircumference m = Num 0 \<and> \<not> isFinite (whr m)
        \<and> st_step (processImage_simple (sample_state 100)
             (Inr (sample_analysis (Some (Num (2 / 10))) (Some (Num (1 / 1000))) None))) = Result"
    using zero_hip_run_simple by blast
  from t0 [THEN conjunct1]
  have 3: "\<exists>m. computeMeasurements (Num 0) (Num 70) (Num 30)
          (sample_analysis (Some (Num (2 / 10))) (Some (Num (2 / 10))) None) = Inr m
        \<and> \<not> isFinite (whtr m) \<and> \<not> isFinite (bmi m)"
    by blast
  from t0 [THEN conjunct2]
  have 4: "\<exists>m. computeMeasurements_simple (Num 0) (Num 70)
          (sample_analysis (Some (Num (2 / 10))) (Some (Num (2 / 10))) None) = Inr m
        \<and> \<not> isFinite (whtr m) \<and> \<not> isFinite (bmi m)"
    by blast
  show ?thesis using 1 2 3 4 by blast
qed

text \<open>
  Height 0 gives a record with \<open>whtr = NaN\<close> and \<open>bmi = Infinity\<close>; height 100 with hip
  ratio \<open>0.001\<close> gives hip circumference 0 and \<open>whr = Infinity\<close>.  Neither sets an error.
\<close>

theorem zero_division_gives_record:
  "st_step (processImage (sample_state 0)
      (Inr (sample_analysis (Some (Num (2 / 10))) (Some (Num (2 / 10))) None))) = Result
   \<and> st_error (processImage (sample_state 0)
      (Inr (sample_analysis (Some (Num (2 / 10))) (Some (Num (2 / 10))) None))) = None
   \<and> map_option whtr (st_measurements (processImage (sample_state 0)
      (Inr (sample_analysis (Some (Num (2 / 10))) (Some (Num (2 / 10))) None)))) = Some NaN
   \<and> map_option bmi (st_measurements (processImage (sample_state 0)
      (Inr (sample_analysis (Some (Num (2 / 10))) (Some (Num (2 / 10))) None)))) = Some PInf
   \<and> st_step (processImage (sample_state 100)
      (Inr (sample_analysis (Some (Num (2 / 10))) (Some (Num (1 / 1000))) None))) = Result
   \<and> map_option hipCircumference (st_measurements (processImage (sample_state 100)
      (Inr (sample_analysis (Some (Num (2 / 10))) (Some (Num (1 / 1000))) None)))) = Some (Num 0)
   \<and> map_option whr (st_measurements (processImage (sample_state 100)
      (Inr (sample_analysis (Some (Num (2 / 10))) (Some (Num (1 / 1000))) None)))) = Some PInf"
proof -
  obtain m0 where m0: "computeMeasurements (Num 0) (Num 70) (Num 30)
      (sample_analysis (Some (Num (2 / 10))) (Some (Num (2 / 10))) None) = Inr m0"
    by (simp add: computeMeasurements_def sample_analysis_def Let_def)
  obtain m1 where m1: "computeMeasurements (Num 100) (Num 70) (Num 30)
      (sample_analysis (Some (Num (2 / 10))) (Some (Num (1 / 1000))) None) = Inr m1"
    by (simp add: computeMeasurements_def sample_analysis_def Let_def)
  have p0: "processImage (sample_state 0)
      (Inr (sample_analysis (Some (Num (2 / 10))) (Some (Num (2 / 10))) None))
      = (sample_state 0)\<lparr> st_step := Result, st_isProcessing := False, st_error := None,
          st_measurements := Some m0 \<rparr>"
    by (rule processImage_Inr) (use m0 in \<open>simp add: sample_state_def\<close>)
  have p1: "processImage (sample_state 100)
      (Inr (sample_analysis (Some (Num (2 / 10))) (Some (Num (1 / 1000))) None))
      = (sample_state 100)\<lparr> st_step := Result, st_isProcessing := False, st_error := None,
          st_measurements := Some m1 \<rparr>"
    by (rule processImage_Inr) (use m1 in \<open>simp add: sample_state_def\<close>)
  show ?thesis
    unfolding p0 p1 using zero_height_run [OF m0] zero_hip_run [OF m1] by simp
qed

text \<open>
  C5.  Height 170 and weight 53.5 give \<open>bmi = 18.5\<close>, labelled \<open>NORMAL\<close>: the lower
  bound of the normal range is inclusive.  Weight 53.4 gives \<open>18.5\<close> as well
  (\<open>53.4 / 2.89 = 18.477...\<close>), labelled \<open>NORMAL\<close>; weight 53.3 gives \<open>18.4\<close>,
  labelled \<open>BAJO PESO\<close> (underweight).
\<close>

theorem bmi_boundary:
  "bmi_of (Num (535 / 10)) (Num 170) = Num (185 / 10)
   \<and> label (getBMIStatus (bmi_of (Num (535 / 10)) (Num 170))) = ''NORMAL''
   \<and> bmi_of (Num (534 / 10)) (Num 170) = Num (185 / 10)
   \<and> label (getBMIStatus (bmi_of (Num (534 / 10)) (Num 170))) = ''NORMAL''
   \<and> bmi_of (Num (533 / 10)) (Num 170) = Num (184 / 10)
   \<and> label (getBMIStatus (bmi_of (Num (533 / 10)) (Num 170))) = ''BAJO PESO''"
  by (simp add: bmi_of_def toFixed_real_def power2_eq_square getBMIStatus_def)

text \<open>Weight 53.4 at height 170 is neither rounded to 18.4 nor labelled underweight.\<close>

theorem bmi_534_not_underweight:
  "bmi_of (Num (534 / 10)) (Num 170) \<noteq> Num (184 / 10)
   \<and> label (getBMIStatus (bmi_of (Num (534 / 10)) (Num 170))) \<noteq> ''BAJO PESO''"
  by (simp add: bmi_of_def toFixed_real_def power2_eq_square getBMIStatus_def)

text \<open>
  C10.  The confidence of the oracle's response does not reach the measurement record:
  the record, and the whole state after the analysis, are the same whatever the
  confidence is.
\<close>

theorem confidence_dropped:
  "computeMeasurements hh wt ag (analysis\<lparr> confidence := c \<rparr>)
     = computeMeasurements hh wt ag analysis
   \<and> computeMeasurements_simple hh wt (analysis\<lparr> confidence := c \<rparr>)
     = computeMeasurements_simple hh wt analysis
   \<and> processImage s (Inr (analysis\<lparr> confidence := c \<rparr>)) = processImage s (Inr analysis)"
  by (simp add: computeMeasurements_def computeMeasurements_simple_def processImage_def)

text \<open>Two responses that differ in their confidence alone leave the same state.\<close>

theorem confidence_not_in_record:
  "processImage (sample_state 170)
      (Inr (sample_analysis (Some (Num (18 / 100))) (Some (Num (2 / 10))) (Some (Num (9 / 10)))))
   = processImage (sample_state 170)
      (Inr (sample_analysis (Some (Num (18 / 100))) (Some (Num (2 / 10))) (Some (Num (1 / 10)))))
   \<and> confidence (sample_analysis (Some (Num (18 / 100))) (Some (Num (2 / 10))) (Some (Num (9 / 10))))
     \<noteq> confidence (sample_analysis (Some (Num (18 / 100))) (Some (Num (2 / 10))) (Some (Num (1 / 10))))"
  by (simp add: computeMeasurements_def processImage_def sample_analysis_def)

text \<open>
  C4.  In the extended variant the depth factor is \<open>0.78\<close> for an age above 50 and
  \<open>0.75\<close> otherwise.  For the same response and the same height, with finite positive
  waist and hip ratios, the run with age 60 gives waist and hip circumferences at least
  as large as the run with age 40, and strictly larger ones where the width (ratio times
  height) is at least 23 cm; the unrounded perimeters are strictly larger for every
  positive width.
\<close>

theorem age_depth_circumference:
  "depthFactor_of (Num a) = (if 50 < a then Num (78 / 100) else Num (75 / 100))
   \<and> (measurements analysis = Some r \<and> waistRatio r = Some (Num rw) \<and> hipRatio r = Some (Num rh)
        \<and> 0 < hh \<and> 0 < rw \<and> 0 < rh \<longrightarrow>
       (\<exists>m60 m40.
           computeMeasurements (Num hh) wt (Num 60) analysis = Inr m60
         \<and> computeMeasurements (Num hh) wt (Num 40) analysis = Inr m40
         \<and> js_ge (waistCircumference m60) (waistCircumference m40)
         \<and> js_ge (hipCircumference m60) (hipCircumference m40)
         \<and> (23 \<le> rw * hh \<longrightarrow> js_gt (waistCircumference m60) (waistCircumference m40))
         \<and> (23 \<le> rh * hh \<longrightarrow> js_gt (hipCircumference m60) (hipCircumference m40))
         \<and> js_gt (perimeter (depthFactor_of (Num 60)) (Num (rw * hh)))
                  (perimeter (depthFactor_of (Num 40)) (Num (rw * hh)))
         \<and> js_gt (perimeter (depthFactor_of (Num 60)) (Num (rh * hh)))
                  (perimeter (depthFactor_of (Num 40)) (Num (rh * hh)))))"
proof (intro conjI impI)
  show "depthFactor_of (Num a) = (if 50 < a then Num (78 / 100) else Num (75 / 100))"
    by (rule depthFactor_of_Num)
next
  assume h: "measurements analysis = Some r \<and> waistRatio r = Some (Num rw)
      \<and> hipRatio r = Some (Num rh) \<and> 0 < hh \<and> 0 < rw \<and> 0 < rh"
  then have a: "measurements analysis = Some r" by simp
  have ww: "0 < rw * hh" and hw: "0 < rh * hh" using h by simp_all
  have rr: "toNumber (waistRatio r) = Num rw" "toNumber (hipRatio r) = Num rh"
    using h by simp_all
  from computeMeasurements_Some [OF a, of "Num hh" wt "Num 60", unfolded rr js_mul.simps]
  obtain m60 where m60: "computeMeasurements (Num hh) wt (Num 60) analysis = Inr m60"
    and w60: "waistCircumference m60 = calcCircumference (depthFactor_of (Num 60)) (Num (rw * hh))"
    and h60: "hipCircumference m60 = calcCircumference (depthFactor_of (Num 60)) (Num (rh * hh))"
    by blast
  from computeMeasurements_Some [OF a, of "Num hh" wt "Num 40", unfolded rr js_mul.simps]
  obtain m40 where m40: "computeMeasurements (Num hh) wt (Num 40) analysis = Inr m40"
    and w40: "waistCircumference m40 = calcCircumference (depthFactor_of (Num 40)) (Num (rw * hh))"
    and h40: "hipCircumference m40 = calcCircumference (depthFactor_of (Num 40)) (Num (rh * hh))"
    by blast
  show "\<exists>m60 m40.
           computeMeasurements (Num hh) wt (Num 60) analysis = Inr m60
         \<and> computeMeasurements (Num hh) wt (Num 40) analysis = Inr m40
         \<and> js_ge (waistCircumference m60) (waistCircumference m40)
         \<and> js_ge (hipCircumference m60) (hipCircumference m40)
         \<and> (23 \<le> rw * hh \<longrightarrow> js_gt (waistCircumference m60) (waistCircumference m40))
         \<and> (23 \<le> rh * hh \<longrightarrow> js_gt (hipCircumference m60) (hipCircumference m40))
         \<and> js_gt (perimeter (depthFactor_of (Num 60)) (Num (rw * hh)))
                  (perimeter (depthFactor_of (Num 40)) (Num (rw * hh)))
         \<and> js_gt (perimeter (depthFactor_of (Num 60)) (Num (rh * hh)))
                  (perimeter (depthFactor_of (Num 40)) (Num (rh * hh)))"
    unfolding m60 m40
    using age_calcCircumference [OF ww] age_calcCircumference [OF hw]
    by (intro exI [of _ m60] exI [of _ m40]) (simp add: w60 h60 w40 h40)
qed

theorem age_depth_circumference_witness:
  "depthFactor_of (Num 60) = Num (78 / 100) \<and> depthFactor_of (Num 40) = Num (75 / 100)
   \<and> (\<exists>m60 m40.
         computeMeasurements (Num 170) (Num 70) (Num 60)
           (sample_analysis (Some (Num (18 / 100))) (Some (Num (2 / 10))) None) = Inr m60
       \<and> computeMeasurements (Num 170) (Num 70) (Num 40)
           (sample_analysis (Some (Num (18 / 100))) (Some (Num (2 / 10))) None) = Inr m40
       \<and> js_gt (waistCircumference m60) (waistCircumference m40)
       \<and> js_gt (hipCircumference m60) (hipCircumference m40))"
proof -
  have a: "measurements (sample_analysis (Some (Num (18 / 100))) (Some (Num (2 / 10))) None)
      = Some \<lparr> waistRatio = Some (Num (18 / 100)), hipRatio = Some (Num (2 / 10)),
          shoulderRatio = Some (Num (25 / 100)), chestRatio = Some (Num (2 / 10)),
          torsoHeightRatio = Some (Num (3 / 10)) \<rparr>"
    by (simp add: sample_analysis_def)
  have 1: "depthFactor_of (Num 60) = Num (78 / 100)"
    using age_depth_circumference [where a = 60] by simp
  have 2: "depthFactor_of (Num 40) = Num (75 / 100)"
    using age_depth_circumference [where a = 40] by simp
  have hyp: "measurements (sample_analysis (Some (Num (18 / 100))) (Some (Num (2 / 10))) None)
        = Some \<lparr> waistRatio = Some (Num (18 / 100)), hipRatio = Some (Num (2 / 10)),
          shoulderRatio = Some (Num (25 / 100)), chestRatio = Some (Num (2 / 10)),
          torsoHeightRatio = Some (Num (3 / 10)) \<rparr>
      \<and> waistRatio \<lparr> waistRatio = Some (Num (18 / 100)), hipRatio = Some (Num (2 / 10)),
          shoulderRatio = Some (Num (25 / 100)), chestRatio = Some (Num (2 / 10)),
          torsoHeightRatio = Some (Num (3 / 10)) \<rparr> = Some (Num (18 / 100))
      \<and> hipRatio \<lparr> waistRatio = Some (Num (18 / 100)), hipRatio = Some (Num (2 / 10)),
          shoulderRatio = Some (Num (25 / 100)), chestRatio = Some (Num (2 / 10)),
          torsoHeightRatio = Some (Num (3 / 10)) \<rparr> = Some (Num (2 / 10))
      \<and> (0::real) < 170 \<and> (0::real) < 18 / 100 \<and> (0::real) < 2 / 10"
    using a by simp
  from age_depth_circumference [where a = 60 and wt = "Num 70", THEN conjunct2, THEN mp, OF hyp]
  obtain m60 m40 where m:
    "computeMeasurements (Num 170) (Num 70) (Num 60)
       (sample_analysis (Some (Num (18 / 100))) (Some (Num (2 / 10))) None) = Inr m60"
    "computeMeasurements (Num 170) (Num 70) (Num 40)
       (sample_analysis (Some (Num (18 / 100))) (Some (Num (2 / 10))) None) = Inr m40"
    "(23::real) \<le> 18 / 100 * 170 \<longrightarrow> js_gt (waistCircumference m60) (waistCircumference m40)"
    "(23::real) \<le> 2 / 10 * 170 \<longrightarrow> js_gt (hipCircumference m60) (hipCircumference m40)"
    by blast
  have "js_gt (waistCircumference m60) (waistCircumference m40)" using m(3) by simp
  moreover have "js_gt (hipCircumference m60) (hipCircumference m40)" using m(4) by simp
  ultimately have 3: "\<exists>m60 m40.
         computeMeasurements (Num 170) (Num 70) (Num 60)
           (sample_analysis (Some (Num (18 / 100))) (Some (Num (2 / 10))) None) = Inr m60
       \<and> computeMeasurements (Num 170) (Num 70) (Num 40)
           (sample_analysis (Some (Num (18 / 100))) (Some (Num (2 / 10))) None) = Inr m40
       \<and> js_gt (waistCircumference m60) (waistCircumference m40)
       \<and> js_gt (hipCircumference m60) (hipCircumference m40)"
    using m(1) m(2) by blast
  show ?thesis using 1 2 3 by blast
qed

text \<open>
  Height 170 with waist and hip ratio \<open>0.11\<close> (width 18.7): both ages give waist and
  hip circumference 52, the perimeters \<open>51.67\<close> and \<open>52.49\<close> rounding to the same
  integer.
\<close>

theorem age_60_not_larger:
  "map_sum id waistCircumference (computeMeasurements (Num 170) (Num 70) (Num 60)
      (sample_analysis (Some (Num (11 / 100))) (Some (Num (11 / 100))) None)) = Inr (Num 52)
   \<and> map_sum id waistCircumference (computeMeasurements (Num 170) (Num 70) (Num 40)
      (sample_analysis (Some (Num (11 / 100))) (Some (Num (11 / 100))) None)) = Inr (Num 52)
   \<and> map_sum id hipCircumference (computeMeasurements (Num 170) (Num 70) (Num 60)
      (sample_analysis (Some (Num (11 / 100))) (Some (Num (11 / 100))) None)) = Inr (Num 52)
   \<and> map_sum id hipCircumference (computeMeasurements (Num 170) (Num 70) (Num 40)
      (sample_analysis (Some (Num (11 / 100))) (Some (Num (11 / 100))) None)) = Inr (Num 52)
   \<and> \<not> js_gt (Num 52) (Num 52)"
  by (simp add: computeMeasurements_def sample_analysis_def Let_def depthFactor_of_Num
      circumference_187_75 circumference_187_78 js_gt_def)




text \<open>
  C7.  For a measurement record with a finite height \<open>h \<ge> 0\<close>, the heights of the
  profile points are non-decreasing, the first is \<open>0\<close> and the last is \<open>h / 100\<close>, in
  both variants.
\<close>

theorem profile_heights:
  assumes "height m = Num h" "0 \<le> h"
  shows "sorted_wrt js_le (map vy (profile_simple m))
       \<and> vy (hd (profile_simple m)) = Num 0
       \<and> vy (last (profile_simple m)) = Num (h / 100)
       \<and> sorted_wrt js_le (map vy (profile m))
       \<and> vy (hd (profile m)) = Num 0
       \<and> vy (last (profile m)) = Num (h / 100)"
proof -
  have s: "0 \<le> h / 100" using assms(2) by simp
  have e1: "map vy (profile_simple m) = map (\<lambda>i. Num (real i / 20 * (h / 100))) [0..<21]"
    by (simp add: profile_simple_map vy_profile_point_simple [OF assms(1)])
  have e2: "map vy (profile m) = map (\<lambda>i. Num (real i / 40 * (h / 100))) [0..<41]"
    by (simp add: profile_map vy_profile_point [OF assms(1)])
  have "sorted_wrt js_le (map vy (profile_simple m))"
    unfolding e1 by (rule sorted_heights [OF s]) simp
  moreover have "sorted_wrt js_le (map vy (profile m))"
    unfolding e2 by (rule sorted_heights [OF s]) simp
  moreover have "vy (hd (profile_simple m)) = Num 0"
    by (simp add: profile_simple_map upt_conv_Cons vy_profile_point_simple [OF assms(1)])
  moreover have "vy (hd (profile m)) = Num 0"
    by (simp add: profile_map upt_conv_Cons vy_profile_point [OF assms(1)])
  moreover have "vy (last (profile_simple m)) = Num (h / 100)"
  proof -
    have "[0..<21] = [0..<20] @ [20::nat]" by (simp add: upt_rec)
    then have "last (profile_simple m) = profile_point_simple m 20"
      by (simp only: profile_simple_map map_append last_snoc list.map)
    then show ?thesis by (simp add: vy_profile_point_simple [OF assms(1)])
  qed
  moreover have "vy (last (profile m)) = Num (h / 100)"
  proof -
    have "[0..<41] = [0..<40] @ [40::nat]" by (simp add: upt_rec)
    then have "last (profile m) = profile_point m 40"
      by (simp only: profile_map map_append last_snoc list.map)
    then show ?thesis by (simp add: vy_profile_point [OF assms(1)])
  qed
  ultimately show ?thesis by simp
qed

theorem profile_heights_witness:
  "sorted_wrt js_le (map vy (profile_simple (sample_measurements 170)))
   \<and> vy (hd (profile_simple (sample_measurements 170))) = Num 0
   \<and> vy (last (profile_simple (sample_measurements 170))) = Num (170 / 100)
   \<and> sorted_wrt js_le (map vy (profile (sample_measurements 170)))
   \<and> vy (hd (profile (sample_measurements 170))) = Num 0
   \<and> vy (last (profile (sample_measurements 170))) = Num (170 / 100)"
proof -
  have h: "height (sample_measurements 170) = Num 170" by (simp add: sample_measurements_def)
  show ?thesis using profile_heights [OF h] by simp
qed

text \<open>
  C9.  The export hands the whole model group to the exporter: the body mesh, the chest,
  waist and hip tapes and the floor grid are all written, under the file name
  \<open>Body3DMetric_Scan.obj\<close>; without a scene nothing is exported.
\<close>

theorem export_whole_group:
  "exportToOBJ None = None
   \<and> exportToOBJ (Some (rebuildModel m modelGroup))
     = Some \<lparr> download = ''Body3DMetric_Scan.obj'', blob_type = ''text/plain'',
              blob = MeshBlock (Mesh (profile m) 48 (7 / 10))
                     # map LineBlock (tl (children (rebuildModel m modelGroup))) \<rparr>
   \<and> children (rebuildModel m modelGroup)
     = [Mesh (profile m) 48 (7 / 10),
        Line (js_mul (Num (72 / 100)) (js_div (height m) (Num 100)))
             (js_add (js_div (chestWidth m) (Num 2)) (Num (5 / 1000)))
             (js_add (js_mul (js_div (chestWidth m) (Num 2)) (Num (7 / 10))) (Num (5 / 1000)))
             0xec4899,
        Line (js_mul (Num (58 / 100)) (js_div (height m) (Num 100)))
             (js_add (js_div (waistWidth m) (Num 2)) (Num (5 / 1000)))
             (js_add (js_mul (js_div (waistWidth m) (Num 2)) (Num (7 / 10))) (Num (5 / 1000)))
             0x22d3ee,
        Line (js_mul (Num (45 / 100)) (js_div (height m) (Num 100)))
             (js_add (js_div (hipWidth m) (Num 2)) (Num (5 / 1000)))
             (js_add (js_mul (js_div (hipWidth m) (Num 2)) (Num (7 / 10))) (Num (5 / 1000)))
             0x818cf8,
        GridHelper 6 30 0x334155 0x1e293b]"
  by (simp add: exportToOBJ_def rebuildModel_def OBJExporter_parse_def createTape_def Let_def)

text \<open>
  For a record of height 170 the export holds, after the mesh, the three tapes and the
  grid.
\<close>

theorem export_contains_tapes_and_grid:
  "map_option (tl \<circ> blob)
     (exportToOBJ (Some (rebuildModel (sample_measurements 170)
        \<lparr> children = [], position_y = Num 0 \<rparr>)))
   = Some [LineBlock (Line (Num (1224 / 1000)) (Num (175 / 1000)) (Num (124 / 1000)) 0xec4899),
           LineBlock (Line (Num (986 / 1000)) (Num (155 / 1000)) (Num (110 / 1000)) 0x22d3ee),
           LineBlock (Line (Num (765 / 1000)) (Num (175 / 1000)) (Num (124 / 1000)) 0x818cf8),
           LineBlock (GridHelper 6 30 0x334155 0x1e293b)]"
  by (simp add: exportToOBJ_def rebuildModel_def OBJExporter_parse_def createTape_def Let_def
      sample_measurements_def)

end
